theory Spec2Isabelle
  imports Complex_Main "HOL-Library.Sublist" "HOL-Library.Monad_Syntax"
begin

section \<open>JavaScript values\<close>

text \<open>
  The values that \<^verbatim>\<open>JSON.parse\<close> produces, and \<^verbatim>\<open>undefined\<close> for a property that
  is absent. A number is the real that the double denotes; infinities and NaN are not
  represented. An object is the list of its own properties.
\<close>

datatype jsval =
    JUndefined
  | JNull
  | JBool bool
  | JNum real
  | JStr string
  | JArr "jsval list"
  | JObj "(string \<times> jsval) list"

text \<open>Truthiness, as tested by \<^verbatim>\<open>if (v)\<close>, \<^verbatim>\<open>!v\<close>, \<^verbatim>\<open>v || d\<close> and \<^verbatim>\<open>v ? a : b\<close>.\<close>

fun truthy :: "jsval \<Rightarrow> bool" where
  "truthy JUndefined = False"
| "truthy JNull = False"
| "truthy (JBool b) = b"
| "truthy (JNum r) = (r \<noteq> 0)"
| "truthy (JStr s) = (s \<noteq> [])"
| "truthy (JArr xs) = True"
| "truthy (JObj kvs) = True"

text \<open>\<^verbatim>\<open>a || b\<close>\<close>

definition js_or :: "jsval \<Rightarrow> jsval \<Rightarrow> jsval" where
  "js_or a b = (if truthy a then a else b)"

text \<open>
  \<^verbatim>\<open>v.k\<close> for a property name \<open>k\<close> of the source (\<^verbatim>\<open>status\<close>, \<^verbatim>\<open>data\<close>, \<^verbatim>\<open>length\<close>,
  \<^verbatim>\<open>run\<close>, ...; never an index). \<open>None\<close> is the TypeError that reading a property of
  \<^verbatim>\<open>null\<close> or \<^verbatim>\<open>undefined\<close> throws. Arrays and strings have \<^verbatim>\<open>length\<close>; numbers and
  booleans have none of the properties the source reads.
\<close>

fun get_prop :: "jsval \<Rightarrow> string \<Rightarrow> jsval option" where
  "get_prop JUndefined k = None"
| "get_prop JNull k = None"
| "get_prop (JBool b) k = Some JUndefined"
| "get_prop (JNum r) k = Some JUndefined"
| "get_prop (JStr s) k = Some (if k = ''length'' then JNum (of_nat (length s)) else JUndefined)"
| "get_prop (JArr xs) k = Some (if k = ''length'' then JNum (of_nat (length xs)) else JUndefined)"
| "get_prop (JObj kvs) k = Some (case map_of kvs k of None \<Rightarrow> JUndefined | Some v \<Rightarrow> v)"

text \<open>\<^verbatim>\<open>v[0]\<close>\<close>

fun elem0 :: "jsval \<Rightarrow> jsval option" where
  "elem0 JUndefined = None"
| "elem0 JNull = None"
| "elem0 (JBool b) = Some JUndefined"
| "elem0 (JNum r) = Some JUndefined"
| "elem0 (JStr s) = Some (case s of [] \<Rightarrow> JUndefined | c # cs \<Rightarrow> JStr [c])"
| "elem0 (JArr xs) = Some (case xs of [] \<Rightarrow> JUndefined | x # ys \<Rightarrow> x)"
| "elem0 (JObj kvs) = Some (case map_of kvs ''0'' of None \<Rightarrow> JUndefined | Some v \<Rightarrow> v)"

text \<open>
  The number an operand of \<^verbatim>\<open>/\<close> stands for. \<open>None\<close>: the operand is \<^verbatim>\<open>undefined\<close>
  (NaN) or a string, array or object, which JavaScript converts through a string first.
  That conversion is not computed here: a result \<open>None\<close> says that the operand was of this
  kind, and nothing about the number JavaScript arrives at.
\<close>

fun num_of :: "jsval \<Rightarrow> real option" where
  "num_of (JNum r) = Some r"
| "num_of (JBool b) = Some (if b then 1 else 0)"
| "num_of JNull = Some 0"
| "num_of JUndefined = None"
| "num_of (JStr s) = None"
| "num_of (JArr xs) = None"
| "num_of (JObj kvs) = None"

text \<open>\<^verbatim>\<open>Math.round\<close>: the nearest integer, a tie going up.\<close>

definition Math_round :: "real \<Rightarrow> int" where
  "Math_round x = \<lfloor>x + 1 / 2\<rfloor>"

text \<open>\<^verbatim>\<open>Math.min(100, Math.round(run / 3))\<close>, with the exact quotient.\<close>

definition run_to_percent :: "jsval \<Rightarrow> int option" where
  "run_to_percent run = map_option (\<lambda>r. min 100 (Math_round (r / 3))) (num_of run)"

text \<open>\<^verbatim>\<open>s.includes(pat)\<close>\<close>

fun str_includes :: "string \<Rightarrow> string \<Rightarrow> bool" where
  "str_includes [] pat = (pat = [])"
| "str_includes (c # cs) pat = (prefix pat (c # cs) \<or> str_includes cs pat)"

section \<open>Errors and promises\<close>

text \<open>
  The errors of the source, in the order of the constructors: authentication failed after
  retry; the API returned another status (the status and the body); invalid API response
  (the first 50 characters of the body); API HTTP error (the status code); the
  \<^verbatim>\<open>error\<close> event of a request; no timers found; a property of \<^verbatim>\<open>null\<close> or
  \<^verbatim>\<open>undefined\<close> was read; the HAP status error for a service communication failure;
  no e-mail or password configured; invalid credentials; the HTTP error of the login (the
  status code); any other failure of the auth client.
\<close>

datatype error =
    AuthFailedAfterRetry
  | ApiStatusError jsval jsval
  | InvalidApiResponse string
  | ApiHttpError int
  | TransportError string
  | NoTimersFound
  | TypeError
  | HapStatusError
  | MissingCredentials
  | InvalidCredentials
  | LoginHttpError int
  | AuthError string

text \<open>
  How a promise ends. \<open>Pending\<close>: it never settles (the server never answers; the
  source sets no timeout on a device request).
\<close>

datatype 'a outcome = Resolved 'a | Rejected error | Pending

section \<open>The device accessory\<close>

text \<open>The session fields that \<^verbatim>\<open>refreshSession\<close> resolves with; \<open>None\<close> is \<^verbatim>\<open>null\<close>.\<close>

record creds =
  cred_token :: "string option"
  cred_uid :: "string option"
  cred_sessionId :: "string option"

text \<open>The fields of \<^verbatim>\<open>this\<close> in \<^verbatim>\<open>DiffuserAccessory\<close>.\<close>

record accessory =
  nid :: string
  token :: "string option"
  username :: string
  appid :: string
  uid :: "string option"
  sessionId :: "string option"
  isOn :: bool
  hostname :: string
  basePath :: string
  headers :: "string \<rightharpoonup> string"
  oilLevel :: jsval
  timerCache :: jsval

text \<open>The \<^verbatim>\<open>options\<close> of one \<^verbatim>\<open>http.request\<close>. Its \<^verbatim>\<open>path\<close> is
  \<open>req_resource\<close>, a question mark, and \<open>req_query\<close> serialised by \<^verbatim>\<open>URLSearchParams\<close>.\<close>

record request =
  req_hostname :: string
  req_port :: nat
  req_resource :: string
  req_query :: "string \<rightharpoonup> jsval"
  req_method :: string
  req_headers :: "string \<rightharpoonup> string"

text \<open>
  What comes back for a request: a complete response (status code, body text, and what
  \<^verbatim>\<open>JSON.parse\<close> makes of the body, \<open>None\<close> when it throws), the \<^verbatim>\<open>error\<close> event, or
  nothing at all.
\<close>

datatype http_result =
    Response int string "jsval option"
  | SocketError string
  | NoAnswer

text \<open>Calls of \<^verbatim>\<open>service.updateCharacteristic\<close>; the speed is \<open>None\<close> as in \<open>num_of\<close>.\<close>

datatype hk_update =
    UpdOn bool
  | UpdFilterLifeLevel jsval
  | UpdLockPhysicalControls nat
  | UpdRotationSpeed "int option"

text \<open>Callbacks handed to \<^verbatim>\<open>setTimeout\<close>.\<close>

datatype task = TaskPollStatus | TaskUpdate hk_update

text \<open>
  Everything outside the accessory object. \<open>net\<close>, \<open>clock\<close>, \<open>refresh\<close> and \<open>product\<close>
  are the environment: the answer to the i-th request, the reading of \<^verbatim>\<open>Date.now()\<close>
  when the i-th request is built, how the i-th call of \<^verbatim>\<open>platform.refreshSession()\<close>
  ends, and the product of two numbers as the machine computes it. That product is the
  exact product rounded to a double; the rounding is not defined here, so that nothing is
  assumed about \<open>product\<close>: what is proved holds for every way of rounding.
  The other fields record effects: the requests issued, the number of refresh calls, the
  pending timeouts (delay in ms, callback) and the characteristic updates.
\<close>

record world =
  net :: "nat \<Rightarrow> http_result"
  clock :: "nat \<Rightarrow> real"
  refresh :: "nat \<Rightarrow> creds outcome"
  product :: "real \<Rightarrow> real \<Rightarrow> real"
  sent :: "request list"
  refresh_calls :: nat
  timeouts :: "(nat \<times> task) list"
  updates :: "hk_update list"

text \<open>\<^verbatim>\<open>null\<close> prints as the text null in a template literal.\<close>

definition tmpl :: "string option \<Rightarrow> string" where
  "tmpl v = (case v of None \<Rightarrow> ''null'' | Some s \<Rightarrow> s)"

definition cookie :: "accessory \<Rightarrow> string" where
  "cookie a = ''appid='' @ appid a @ '';uid='' @ tmpl (uid a) @ '';token='' @ tmpl (token a)
     @ '';SESSIONID='' @ tmpl (sessionId a) @ '';username='' @ username a"

text \<open>
  The configuration handed to the constructor, and the fields the constructor sets
  (\<^verbatim>\<open>config.appid || '19987617'\<close>; no timer cached). The constructor then starts polling.
\<close>

record config =
  cfg_nid :: string
  cfg_token :: "string option"
  cfg_username :: string
  cfg_appid :: "string option"
  cfg_uid :: "string option"
  cfg_sessionId :: "string option"

definition new_accessory :: "config \<Rightarrow> accessory" where
  "new_accessory c =
     (let a = \<lparr> nid = cfg_nid c, token = cfg_token c, username = cfg_username c,
                 appid = (case cfg_appid c of None \<Rightarrow> ''19987617''
                          | Some s \<Rightarrow> if s = [] then ''19987617'' else s),
                 uid = cfg_uid c, sessionId = cfg_sessionId c, isOn = False,
                 hostname = ''amos.us.lbslm.com'', basePath = ''/amosFragrance'',
                 headers = Map.empty, oilLevel = JNum 100, timerCache = JNull \<rparr>
      in a\<lparr>headers :=
            [''Host'' \<mapsto> ''amos.us.lbslm.com'', ''Accept'' \<mapsto> ''*/*'',
             ''User-Agent'' \<mapsto> ''UPerfume/2.1.5 (iPhone; iOS 26.3; Scale/3.00)'',
             ''Accept-Language'' \<mapsto> ''en-US;q=1'', ''Connection'' \<mapsto> ''keep-alive'',
             ''Cookie'' \<mapsto> cookie a]\<rparr>)"

text \<open>The first half of \<^verbatim>\<open>_callApi\<close>: query, resource path and options.\<close>

definition queryParams :: "accessory \<Rightarrow> real \<Rightarrow> (string \<rightharpoonup> jsval) \<Rightarrow> (string \<rightharpoonup> jsval)" where
  "queryParams a timestamp params =
     [''nid'' \<mapsto> JStr (nid a), ''timestamp'' \<mapsto> JNum timestamp] ++ params"

definition resourcePath :: "accessory \<Rightarrow> string \<Rightarrow> string" where
  "resourcePath a path = (if prefix ''/admin'' path then path else basePath a @ path)"

definition request_options :: "accessory \<Rightarrow> real \<Rightarrow> string \<Rightarrow> (string \<rightharpoonup> jsval) \<Rightarrow> request" where
  "request_options a timestamp path params =
     \<lparr> req_hostname = hostname a,
       req_port = 80,
       req_resource = resourcePath a path,
       req_query = queryParams a timestamp params,
       req_method = ''GET'',
       req_headers = (headers a)(''Cookie'' \<mapsto> cookie a) \<rparr>"

text \<open>Building the options and handing them to \<^verbatim>\<open>http.request\<close>.\<close>

definition send_request :: "world \<Rightarrow> accessory \<Rightarrow> string \<Rightarrow> (string \<rightharpoonup> jsval) \<Rightarrow> world" where
  "send_request w a path params =
     (let timestamp = clock w (length (sent w)) / 1000
      in w\<lparr>sent := sent w @ [request_options a timestamp path params]\<rparr>)"

text \<open>\<^verbatim>\<open>json.status === 'AuthenticationException' || json.status === '401'\<close>\<close>

definition auth_failure :: "jsval \<Rightarrow> bool" where
  "auth_failure status = (status = JStr ''AuthenticationException'' \<or> status = JStr ''401'')"

text \<open>
  \<^verbatim>\<open>_callApi(path, params, retryCount)\<close>. The request is sent, then the answer is
  classified. A body that does not parse, and a body that parses to \<^verbatim>\<open>null\<close> (whose
  \<^verbatim>\<open>status\<close> cannot be read), both end in the \<^verbatim>\<open>catch\<close>. When the refresh is
  rejected, \<^verbatim>\<open>reject(err)\<close> comes first and the later \<^verbatim>\<open>reject\<close> has no effect.
\<close>

function callApi ::
  "world \<Rightarrow> accessory \<Rightarrow> string \<Rightarrow> (string \<rightharpoonup> jsval) \<Rightarrow> nat \<Rightarrow> jsval outcome \<times> accessory \<times> world"
where
  "callApi w a path params retryCount =
    (let w1 = send_request w a path params
     in case net w (length (sent w)) of
          NoAnswer \<Rightarrow> (Pending, a, w1)
        | SocketError e \<Rightarrow> (Rejected (TransportError e), a, w1)
        | Response statusCode data parsed \<Rightarrow>
            if statusCode = 200 then
              (case parsed of
                 None \<Rightarrow> (Rejected (InvalidApiResponse (take 50 data)), a, w1)
               | Some json \<Rightarrow>
                  (case get_prop json ''status'' of
                     None \<Rightarrow> (Rejected (InvalidApiResponse (take 50 data)), a, w1)
                   | Some status \<Rightarrow>
                       if auth_failure status then
                         (if retryCount < 1 then
                            (let w2 = w1\<lparr>refresh_calls := refresh_calls w1 + 1\<rparr>
                             in case refresh w1 (refresh_calls w1) of
                                  Resolved creds \<Rightarrow>
                                    callApi w2
                                      (a\<lparr>token := cred_token creds, uid := cred_uid creds,
                                         sessionId := cred_sessionId creds\<rparr>)
                                      path params (retryCount + 1)
                                | Rejected err \<Rightarrow> (Rejected err, a, w2)
                                | Pending \<Rightarrow> (Pending, a, w2))
                          else (Rejected AuthFailedAfterRetry, a, w1))
                       else if status = JStr ''200'' then (Resolved json, a, w1)
                       else (Rejected (ApiStatusError status json), a, w1)))
            else (Rejected (ApiHttpError statusCode), a, w1))"
  by pat_completeness auto
termination
  by (relation "measure (\<lambda>(w, a, path, params, retryCount). 1 - retryCount)") auto

declare callApi.simps [simp del]

text \<open>
  \<^verbatim>\<open>await p\<close> followed by the rest of an \<^verbatim>\<open>async\<close> function: a rejection is thrown
  on, and nothing more runs while \<open>p\<close> is pending.
\<close>

definition await ::
  "'a outcome \<times> accessory \<times> world \<Rightarrow> ('a \<Rightarrow> accessory \<Rightarrow> world \<Rightarrow> 'b outcome \<times> accessory \<times> world)
     \<Rightarrow> 'b outcome \<times> accessory \<times> world"
where
  "await p k =
     (case p of
        (Resolved x, a, w) \<Rightarrow> k x a w
      | (Rejected err, a, w) \<Rightarrow> (Rejected err, a, w)
      | (Pending, a, w) \<Rightarrow> (Pending, a, w))"

text \<open>
  A property of a value that the source has just tested to be truthy; such a value is
  neither \<^verbatim>\<open>null\<close> nor \<^verbatim>\<open>undefined\<close>, so the read cannot throw (lemma
  \<open>truthy_get_prop\<close> below).
\<close>

definition field :: "jsval \<Rightarrow> string \<Rightarrow> jsval" where
  "field v k = (case get_prop v k of Some x \<Rightarrow> x | None \<Rightarrow> JUndefined)"

subsection \<open>Intensity\<close>

text \<open>\<^verbatim>\<open>!listJson || !listJson.data || !listJson.data.length\<close>\<close>

definition no_timers :: "jsval \<Rightarrow> bool" where
  "no_timers listJson =
     (\<not> truthy listJson \<or> \<not> truthy (field listJson ''data'')
       \<or> \<not> truthy (field (field listJson ''data'') ''length''))"

text \<open>
  The \<^verbatim>\<open>params\<close> of the update call. \<open>None\<close>: the first entry of the list is
  \<^verbatim>\<open>null\<close>, and reading \<^verbatim>\<open>timer.timerId\<close> throws.
\<close>

definition update_params :: "jsval \<Rightarrow> int \<Rightarrow> (string \<rightharpoonup> jsval) option" where
  "update_params timer newRunTime =
     do {
       timerId \<leftarrow> get_prop timer ''timerId'';
       uid' \<leftarrow> get_prop timer ''uid'';
       name \<leftarrow> get_prop timer ''name'';
       start \<leftarrow> get_prop timer ''start'';
       stop \<leftarrow> get_prop timer ''stop'';
       mode \<leftarrow> get_prop timer ''mode'';
       suspend \<leftarrow> get_prop timer ''suspend'';
       Some [''timerId'' \<mapsto> timerId, ''uid'' \<mapsto> uid', ''name'' \<mapsto> name, ''start'' \<mapsto> start,
             ''stop'' \<mapsto> stop, ''mode'' \<mapsto> mode, ''run'' \<mapsto> JNum (of_int newRunTime),
             ''suspend'' \<mapsto> suspend]
     }"

text \<open>\<^verbatim>\<open>updateTimerIntensity(newRunTime)\<close>: fetch the list, cache its first entry, update.\<close>

definition updateTimerIntensity ::
  "world \<Rightarrow> accessory \<Rightarrow> int \<Rightarrow> unit outcome \<times> accessory \<times> world"
where
  "updateTimerIntensity w a newRunTime =
     await (callApi w a ''/timerList.do'' [''isBluetooth'' \<mapsto> JNum 0] 0)
       (\<lambda>listJson a1 w1.
          if no_timers listJson then (Rejected NoTimersFound, a1, w1)
          else
            (case elem0 (field listJson ''data'') of
               None \<Rightarrow> (Rejected TypeError, a1, w1)
             | Some timer \<Rightarrow>
                 (let a2 = a1\<lparr>timerCache := timer\<rparr>
                  in case update_params timer newRunTime of
                       None \<Rightarrow> (Rejected TypeError, a2, w1)
                     | Some params \<Rightarrow>
                         await (callApi w1 a2 ''/updateTimer.do'' params 0)
                           (\<lambda>r a3 w3. (Resolved (), a3, w3)))))"

text \<open>
  \<^verbatim>\<open>setRotationSpeed(value)\<close>; any failure is rethrown as the HAP status error.
  \<^verbatim>\<open>value * 3\<close> is the machine's product; rounding a double to the nearest integer and
  taking the larger of two numbers are exact.
\<close>

definition setRotationSpeed ::
  "world \<Rightarrow> accessory \<Rightarrow> real \<Rightarrow> unit outcome \<times> accessory \<times> world"
where
  "setRotationSpeed w a v =
     (if v = 0 then (Resolved (), a, w)
      else
        (let runTime = max 5 (Math_round (product w v 3))
         in case updateTimerIntensity w a runTime of
              (Rejected e, a', w') \<Rightarrow> (Rejected HapStatusError, a', w')
            | (Resolved u, a', w') \<Rightarrow> (Resolved u, a', w')
            | (Pending, a', w') \<Rightarrow> (Pending, a', w')))"

text \<open>\<^verbatim>\<open>getRotationSpeed()\<close>; \<open>None\<close> as in \<open>num_of\<close>.\<close>

definition getRotationSpeed :: "accessory \<Rightarrow> int option" where
  "getRotationSpeed a =
     (if truthy (timerCache a)
      then (let run = js_or (field (timerCache a) ''run'') (JNum 0) in run_to_percent run)
      else Some 50)"

subsection \<open>Child lock\<close>

text \<open>\<^verbatim>\<open>setLock(value)\<close>\<close>

definition setLock ::
  "world \<Rightarrow> accessory \<Rightarrow> jsval \<Rightarrow> unit outcome \<times> accessory \<times> world"
where
  "setLock w a v =
     (case (if truthy v
            then callApi w a ''/admin/amos/deviceLock.do'' Map.empty 0
            else callApi w a ''/admin/amos/deviceUnlock.do''
                   [''days'' \<mapsto> JNum 0, ''name'' \<mapsto> JStr []] 0) of
        (Resolved r, a1, w1) \<Rightarrow>
          (Resolved (), a1, w1\<lparr>timeouts := timeouts w1 @ [(1000, TaskPollStatus)]\<rparr>)
      | (Rejected err, a1, w1) \<Rightarrow>
          (Rejected HapStatusError, a1,
           w1\<lparr>timeouts := timeouts w1 @
              [(500, TaskUpdate (UpdLockPhysicalControls (if \<not> truthy v then 1 else 0)))]\<rparr>)
      | (Pending, a1, w1) \<Rightarrow> (Pending, a1, w1))"

subsection \<open>Status poll\<close>

text \<open>\<^verbatim>\<open>pollStatus()\<close>; a failed call is only logged.\<close>

definition pollStatus :: "world \<Rightarrow> accessory \<Rightarrow> unit outcome \<times> accessory \<times> world" where
  "pollStatus w a =
     (case callApi w a ''/amosFragrance.do'' [''checkPermissions'' \<mapsto> JNum 0] 0 of
        (Resolved response, a1, w1) \<Rightarrow>
          if truthy response \<and> truthy (field response ''data'') then
            (let data = field response ''data'';
                 a2 = a1\<lparr>isOn := (field data ''status'' = JBool True),
                         oilLevel := js_or (field data ''liquidLevel'') (JNum 0)\<rparr>;
                 lockState = (if truthy (field data ''lockMark'') then 1 else 0);
                 speed = run_to_percent (js_or (field data ''run'') (JNum 0))
             in (Resolved (), a2,
                 w1\<lparr>updates := updates w1 @
                    [UpdOn (isOn a2), UpdFilterLifeLevel (oilLevel a2),
                     UpdLockPhysicalControls lockState, UpdRotationSpeed speed]\<rparr>))
          else (Resolved (), a1, w1)
      | (Rejected err, a1, w1) \<Rightarrow> (Resolved (), a1, w1)
      | (Pending, a1, w1) \<Rightarrow> (Pending, a1, w1))"

section \<open>The auth client\<close>

text \<open>
  What comes back for the login request: status code, the \<^verbatim>\<open>set-cookie\<close> header
  (\<open>None\<close> when the response has none) and the body; or the \<^verbatim>\<open>error\<close> event; or nothing.
\<close>

datatype login_result =
    LoginResponse int "string list option" string
  | LoginSocketError string
  | LoginNoAnswer

text \<open>
  \<^verbatim>\<open>login(username, password)\<close>, as a function of what comes back. It resolves with
  the cookies, or with \<^verbatim>\<open>null\<close> (\<open>None\<close>).
\<close>

definition login :: "login_result \<Rightarrow> string list option outcome" where
  "login res =
     (case res of
        LoginResponse statusCode cookies data \<Rightarrow>
          if 200 \<le> statusCode \<and> statusCode < 400 then
            (case cookies of
               Some cs \<Rightarrow> Resolved (Some cs)
             | None \<Rightarrow>
                 if str_includes data ''AuthenticationException''
                 then Rejected InvalidCredentials
                 else Resolved None)
          else Rejected (LoginHttpError statusCode)
      | LoginSocketError e \<Rightarrow> Rejected (TransportError e)
      | LoginNoAnswer \<Rightarrow> Pending)"

section \<open>The platform: session refresh\<close>

text \<open>
  One promise made by \<^verbatim>\<open>this._executeRefresh().finally(...)\<close>: the refresh is suspended
  at \<^verbatim>\<open>await auth.getCredentials(...)\<close>; or it has thrown before calling the auth client
  and the \<^verbatim>\<open>finally\<close> callback has not run yet; or the promise is settled.
\<close>

datatype refresh_promise =
    AwaitLogin
  | Throwing error
  | Done "error + creds"

text \<open>
  The platform object: the configured e-mail and password (\<open>None\<close> for \<^verbatim>\<open>null\<close>);
  \<^verbatim>\<open>this._refreshPromise\<close> (the index of a stored promise, \<open>None\<close> for \<^verbatim>\<open>null\<close>); the
  promises stored so far; one entry for each call of \<^verbatim>\<open>refreshSession\<close>, in order (who
  called, and which stored promise the call returned); and the number of calls of
  \<^verbatim>\<open>auth.getCredentials\<close>, each of which begins with one login.

  \<^verbatim>\<open>refreshSession\<close> is an \<^verbatim>\<open>async\<close> function: what a caller gets is a fresh promise of its
  own, a different object for every call, which follows the stored promise that the call
  returned. The entries of \<open>returned\<close> stand for these fresh promises.
\<close>

record platform =
  email :: "string option"
  password :: "string option"
  refreshPromise :: "nat option"
  promises :: "refresh_promise list"
  returned :: "(nat \<times> nat) list"
  logins :: nat

text \<open>\<^verbatim>\<open>!this.config.email\<close>: \<^verbatim>\<open>null\<close> and the empty string are falsy.\<close>

definition missing :: "string option \<Rightarrow> bool" where
  "missing s = (s = None \<or> s = Some [])"

text \<open>\<^verbatim>\<open>_executeRefresh()\<close> up to its \<^verbatim>\<open>await\<close>.\<close>

definition executeRefresh_start :: "platform \<Rightarrow> platform \<times> refresh_promise" where
  "executeRefresh_start p =
     (if missing (email p) \<or> missing (password p) then (p, Throwing MissingCredentials)
      else (p\<lparr>logins := logins p + 1\<rparr>, AwaitLogin))"

text \<open>
  \<^verbatim>\<open>_executeRefresh()\<close> after its \<^verbatim>\<open>await\<close>, given what \<^verbatim>\<open>getCredentials\<close> ended with:
  an error, \<^verbatim>\<open>null\<close> (no device on the account; reading \<^verbatim>\<open>creds.token\<close> throws) or the
  session fields.
\<close>

definition executeRefresh_finish :: "error + creds option \<Rightarrow> error + creds" where
  "executeRefresh_finish r =
     (case r of
        Inl err \<Rightarrow> Inl err
      | Inr None \<Rightarrow> Inl TypeError
      | Inr (Some c) \<Rightarrow>
          Inr \<lparr>cred_token = cred_token c, cred_uid = cred_uid c, cred_sessionId = cred_sessionId c\<rparr>)"

text \<open>
  \<^verbatim>\<open>refreshSession()\<close>, called by caller \<open>c\<close>. It runs without interruption. The new entry
  of \<open>returned\<close> is the caller's fresh promise, with the stored promise it follows.
\<close>

definition refreshSession :: "nat \<Rightarrow> platform \<Rightarrow> platform" where
  "refreshSession c p =
     (case refreshPromise p of
        Some q \<Rightarrow> p\<lparr>returned := returned p @ [(c, q)]\<rparr>
      | None \<Rightarrow>
          (let (p1, st) = executeRefresh_start p;
               q = length (promises p1)
           in p1\<lparr>promises := promises p1 @ [st], refreshPromise := Some q,
                 returned := returned p1 @ [(c, q)]\<rparr>))"

text \<open>
  The refresh behind promise \<open>q\<close> completes: \<open>r\<close> is what \<^verbatim>\<open>getCredentials\<close> ended with, if
  it was called. The \<^verbatim>\<open>finally\<close> callback clears the marker, then the promise settles.
\<close>

definition settle :: "nat \<Rightarrow> error + creds option \<Rightarrow> platform \<Rightarrow> platform" where
  "settle q r p =
     (if q < length (promises p) then
        (case promises p ! q of
           AwaitLogin \<Rightarrow>
             p\<lparr>promises := (promises p)[q := Done (executeRefresh_finish r)], refreshPromise := None\<rparr>
         | Throwing err \<Rightarrow>
             p\<lparr>promises := (promises p)[q := Done (Inl err)], refreshPromise := None\<rparr>
         | Done v \<Rightarrow> p)
      else p)"

text \<open>
  What the promise of the \<open>i\<close>-th call of \<^verbatim>\<open>refreshSession\<close> has settled with: the promise
  of an \<^verbatim>\<open>async\<close> function settles as the promise that the function returned. \<open>None\<close>
  while it is pending.
\<close>

definition received :: "platform \<Rightarrow> nat \<Rightarrow> (error + creds) option" where
  "received p i =
     (if i < length (returned p) \<and> snd (returned p ! i) < length (promises p)
      then (case promises p ! snd (returned p ! i) of
              Done v \<Rightarrow> Some v
            | AwaitLogin \<Rightarrow> None
            | Throwing err \<Rightarrow> None)
      else None)"

section \<open>Notions used in the statements\<close>

text \<open>
  An answer that \<^verbatim>\<open>_callApi\<close> classifies as an authentication failure: HTTP 200, a
  body that parses, and an authentication-failure status in it.
\<close>

definition is_auth_answer :: "http_result \<Rightarrow> bool" where
  "is_auth_answer res =
     (case res of
        Response statusCode data (Some json) \<Rightarrow>
          statusCode = 200 \<and>
          (case get_prop json ''status'' of None \<Rightarrow> False | Some st \<Rightarrow> auth_failure st)
      | _ \<Rightarrow> False)"

text \<open>An answer that \<^verbatim>\<open>_callApi\<close> classifies as success, with the parsed body \<open>json\<close>.\<close>

definition is_ok_answer :: "http_result \<Rightarrow> jsval \<Rightarrow> bool" where
  "is_ok_answer res json =
     (case res of
        Response statusCode data (Some j) \<Rightarrow>
          statusCode = 200 \<and> j = json \<and> get_prop json ''status'' = Some (JStr ''200'')
      | _ \<Rightarrow> False)"


text \<open>Whether a promise of the platform is settled.\<close>

fun settled :: "refresh_promise \<Rightarrow> bool" where
  "settled (Done v) = True"
| "settled AwaitLogin = False"
| "settled (Throwing err) = False"

section \<open>Sample data\<close>

text \<open>
  A device as the platform registers it, and a world in which nothing has happened yet.
  Its products are exact, as the machine's are for the whole numbers used below.
\<close>

definition sample_config :: config where
  "sample_config =
     \<lparr> cfg_nid = ''4711'', cfg_token = Some ''old-token'', cfg_username = ''user@example.org'',
       cfg_appid = None, cfg_uid = Some ''17'', cfg_sessionId = Some ''old-session'' \<rparr>"

definition sample_accessory :: accessory where
  "sample_accessory = new_accessory sample_config"

definition fresh_world :: "(nat \<Rightarrow> http_result) \<Rightarrow> (nat \<Rightarrow> creds outcome) \<Rightarrow> world" where
  "fresh_world answers refreshes =
     \<lparr> net = answers, clock = (\<lambda>i. 1700000000000 + 250 * of_nat i), refresh = refreshes,
       product = (\<lambda>x y. x * y), sent = [], refresh_calls = 0, timeouts = [], updates = [] \<rparr>"

definition new_creds :: creds where
  "new_creds =
     \<lparr> cred_token = Some ''new-token'', cred_uid = Some ''17'', cred_sessionId = Some ''new-session'' \<rparr>"

definition auth_exception :: http_result where
  \<open>auth_exception =
     Response 200 ''{"status":"AuthenticationException","msg":"Fail"}''
       (Some (JObj [(''status'', JStr ''AuthenticationException''), (''msg'', JStr ''Fail'')]))\<close>

definition ok_empty :: http_result where
  \<open>ok_empty = Response 200 ''{"status":"200"}'' (Some (JObj [(''status'', JStr ''200'')]))\<close>

definition retry_world :: world where
  "retry_world =
     fresh_world (\<lambda>i. if i = 0 then auth_exception else ok_empty) (\<lambda>i. Resolved new_creds)"

definition unauthorized :: http_result where
  \<open>unauthorized =
     Response 200 ''{"status":"401"}'' (Some (JObj [(''status'', JStr ''401'')]))\<close>

definition retry401_world :: world where
  "retry401_world =
     fresh_world (\<lambda>i. if i = 0 then unauthorized else ok_empty) (\<lambda>i. Resolved new_creds)"

definition expired_world :: world where
  "expired_world = fresh_world (\<lambda>i. auth_exception) (\<lambda>i. Resolved new_creds)"

definition calm_world :: world where
  "calm_world = fresh_world (\<lambda>i. ok_empty) (\<lambda>i. Pending)"

definition refused_world :: world where
  "refused_world = fresh_world (\<lambda>i. Response 500 [] None) (\<lambda>i. Pending)"

definition status_scenario :: jsval where
  "status_scenario =
     JObj [(''status'', JStr ''200''),
           (''data'', JObj [(''status'', JBool True), (''run'', JNum 90),
                            (''liquidLevel'', JNum 0), (''lockMark'', JBool True)])]"

definition scenario_world :: world where
  "scenario_world = fresh_world (\<lambda>i. Response 200 [] (Some status_scenario)) (\<lambda>i. Pending)"

definition repoll_world :: world where
  "repoll_world =
     fresh_world (\<lambda>i. if i = 0 then auth_exception else Response 200 [] (Some status_scenario))
       (\<lambda>i. Resolved new_creds)"

definition bare_status :: jsval where
  "bare_status = JObj [(''status'', JStr ''200''), (''data'', JObj [(''status'', JStr ''on'')])]"

definition bare_world :: world where
  "bare_world = fresh_world (\<lambda>i. Response 200 [] (Some bare_status)) (\<lambda>i. Pending)"

definition sample_timer :: jsval where
  "sample_timer =
     JObj [(''timerId'', JNum 1), (''uid'', JNum 17), (''name'', JStr ''Day''),
           (''start'', JStr ''08:00''), (''stop'', JStr ''22:00''), (''mode'', JNum 1),
           (''run'', JNum 10), (''suspend'', JNum 120)]"

definition timer_list :: http_result where
  "timer_list = Response 200 [] (Some (JObj [(''status'', JStr ''200''), (''data'', JArr [sample_timer])]))"

definition empty_list :: http_result where
  "empty_list = Response 200 [] (Some (JObj [(''status'', JStr ''200''), (''data'', JArr [])]))"

definition timer_world :: world where
  "timer_world = fresh_world (\<lambda>i. if i = 0 then timer_list else ok_empty) (\<lambda>i. Pending)"

definition update_fails_world :: world where
  "update_fails_world =
     fresh_world (\<lambda>i. if i = 0 then timer_list else Response 500 [] None) (\<lambda>i. Pending)"

definition no_timer_world :: world where
  "no_timer_world = fresh_world (\<lambda>i. empty_list) (\<lambda>i. Pending)"



definition idle_platform :: "string option \<Rightarrow> string option \<Rightarrow> platform" where
  "idle_platform e pw =
     \<lparr> email = e, password = pw, refreshPromise = None, promises = [], returned = [], logins = 0 \<rparr>"

section \<open>Basic facts\<close>

lemma truthy_get_prop: "truthy v \<Longrightarrow> get_prop v k = Some (field v k)"
  by (cases v) (simp_all add: field_def)

lemma sent_send_request [simp]:
  "sent (send_request w a path params) =
     sent w @ [request_options a (clock w (length (sent w)) / 1000) path params]"
  by (simp add: send_request_def)

lemma send_request_other [simp]:
  "net (send_request w a path params) = net w"
  "clock (send_request w a path params) = clock w"
  "refresh (send_request w a path params) = refresh w"
  "product (send_request w a path params) = product w"
  "refresh_calls (send_request w a path params) = refresh_calls w"
  "timeouts (send_request w a path params) = timeouts w"
  "updates (send_request w a path params) = updates w"
  by (simp_all add: send_request_def)

lemma callApi_retry:
  "1 \<le> rc \<Longrightarrow> \<exists>r. callApi w a path params rc = (r, a, send_request w a path params)"
  by (subst callApi.simps) (auto simp: Let_def split: http_result.splits option.splits)

lemma callApi_retry_auth:
  assumes "1 \<le> rc" "net w (length (sent w)) = Response 200 d (Some j)"
    "get_prop j ''status'' = Some st" "auth_failure st"
  shows "callApi w a path params rc = (Rejected AuthFailedAfterRetry, a, send_request w a path params)"
  using assms by (subst callApi.simps) (auto simp: Let_def)

lemma callApi_success:
  assumes "net w (length (sent w)) = Response 200 d (Some j)"
    "get_prop j ''status'' = Some (JStr ''200'')"
  shows "callApi w a path params rc = (Resolved j, a, send_request w a path params)"
  using assms by (subst callApi.simps) (auto simp: Let_def auth_failure_def)

lemma callApi_first_auth:
  assumes "net w (length (sent w)) = Response 200 d (Some j)"
    "get_prop j ''status'' = Some st" "auth_failure st"
  shows "callApi w a path params 0 =
     (let w2 = (send_request w a path params)\<lparr>refresh_calls := refresh_calls w + 1\<rparr>
      in case refresh w (refresh_calls w) of
           Resolved c \<Rightarrow> callApi w2 (a\<lparr>token := cred_token c, uid := cred_uid c,
                                         sessionId := cred_sessionId c\<rparr>) path params 1
         | Rejected err \<Rightarrow> (Rejected err, a, w2)
         | Pending \<Rightarrow> (Pending, a, w2))"
  using assms by (subst callApi.simps) (auto simp: Let_def split: outcome.splits)

lemma callApi_no_auth:
  assumes "\<not> is_auth_answer (net w (length (sent w)))"
  shows "\<exists>r. callApi w a path params rc = (r, a, send_request w a path params)"
  using assms
  by (subst callApi.simps)
     (auto simp: Let_def is_auth_answer_def split: http_result.splits option.splits)

lemma is_auth_answerD:
  "is_auth_answer res \<Longrightarrow> \<exists>d j st. res = Response 200 d (Some j) \<and> get_prop j ''status'' = Some st \<and> auth_failure st"
  by (auto simp: is_auth_answer_def split: http_result.splits option.splits)

lemma callApi_shape:
  assumes run: "callApi w a path params 0 = (r, a', w')"
  shows "(a' = a \<and> w' = send_request w a path params)
       \<or> (is_auth_answer (net w (length (sent w))) \<and> (\<forall>c. refresh w (refresh_calls w) \<noteq> Resolved c) \<and> a' = a
           \<and> w' = (send_request w a path params)\<lparr>refresh_calls := refresh_calls w + 1\<rparr>)
       \<or> (is_auth_answer (net w (length (sent w))) \<and> (\<exists>c. refresh w (refresh_calls w) = Resolved c \<and> a' = a\<lparr>token := cred_token c, uid := cred_uid c, sessionId := cred_sessionId c\<rparr>
           \<and> w' = send_request ((send_request w a path params)\<lparr>refresh_calls := refresh_calls w + 1\<rparr>) a' path params))"
proof (cases "is_auth_answer (net w (length (sent w)))")
  case False
  from callApi_no_auth [OF this, of a path params 0] run show ?thesis by auto
next
  case True
  then obtain d j st where ans: "net w (length (sent w)) = Response 200 d (Some j)"
    "get_prop j ''status'' = Some st" "auth_failure st"
    by (auto dest: is_auth_answerD)
  note eq = callApi_first_auth [OF ans, of a path params]
  show ?thesis
  proof (cases "refresh w (refresh_calls w)")
    case (Resolved c)
    let ?a2 = "a\<lparr>token := cred_token c, uid := cred_uid c, sessionId := cred_sessionId c\<rparr>"
    let ?w2 = "(send_request w a path params)\<lparr>refresh_calls := refresh_calls w + 1\<rparr>"
    from callApi_retry [of 1 ?w2 ?a2 path params]
    obtain r2 where "callApi ?w2 ?a2 path params 1 = (r2, ?a2, send_request ?w2 ?a2 path params)"
      by auto
    with eq run Resolved True show ?thesis by (auto simp: Let_def)
  next
    case (Rejected e)
    with eq run True show ?thesis by (auto simp: Let_def)
  next
    case Pending
    with eq run True show ?thesis by (auto simp: Let_def)
  qed
qed

lemma callApi_keeps:
  assumes run: "callApi w a path params 0 = (r, a', w')"
  shows "nid a' = nid a" "basePath a' = basePath a" "timerCache a' = timerCache a"
    "isOn a' = isOn a" "oilLevel a' = oilLevel a" "appid a' = appid a" "username a' = username a"
    "hostname a' = hostname a" "headers a' = headers a"
    "timeouts w' = timeouts w" "updates w' = updates w"
    "net w' = net w" "clock w' = clock w" "refresh w' = refresh w" "product w' = product w"
  using callApi_shape [OF run] by auto

lemma callApi_sent:
  assumes run: "callApi w a path params 0 = (r, a', w')"
  shows "sent w' = sent w @ [request_options a (clock w (length (sent w)) / 1000) path params]
       \<or> sent w' = sent w @ [request_options a (clock w (length (sent w)) / 1000) path params,
                              request_options a' (clock w (length (sent w) + 1) / 1000) path params]"
  using callApi_shape [OF run] by auto

lemma callApi_sent_nth:
  assumes run: "callApi w a path params 0 = (r, a', w')"
    and i: "length (sent w) \<le> i" "i < length (sent w')"
  shows "\<exists>b. nid b = nid a \<and> basePath b = basePath a
           \<and> sent w' ! i = request_options b (clock w i / 1000) path params"
proof -
  from callApi_sent [OF run] show ?thesis
  proof
    assume s: "sent w' = sent w @ [request_options a (clock w (length (sent w)) / 1000) path params]"
    with i have "i = length (sent w)" by simp
    with s show ?thesis by (auto simp: nth_append)
  next
    assume s: "sent w' = sent w @ [request_options a (clock w (length (sent w)) / 1000) path params,
                              request_options a' (clock w (length (sent w) + 1) / 1000) path params]"
    with i have "i = length (sent w) \<or> i = length (sent w) + 1" by auto
    then show ?thesis
    proof
      assume "i = length (sent w)"
      with s show ?thesis by (auto simp: nth_append)
    next
      assume "i = length (sent w) + 1"
      with s callApi_keeps(1,2) [OF run] show ?thesis
        by (intro exI [of _ a']) (simp add: nth_append)
    qed
  qed
qed

lemma callApi_first_request:
  assumes run: "callApi w a path params 0 = (r, a', w')"
  shows "length (sent w) < length (sent w')"
    and "sent w' ! length (sent w) = request_options a (clock w (length (sent w)) / 1000) path params"
  using callApi_sent [OF run] by (auto simp: nth_append)


lemma callApi_resolved_retry:
  assumes "1 \<le> rc" "callApi w a path params rc = (Resolved x, a', w')"
  shows "get_prop x ''status'' = Some (JStr ''200'')"
  using assms
  by (subst (asm) callApi.simps)
     (auto simp: Let_def split: http_result.splits option.splits if_splits)

lemma callApi_resolved:
  assumes "callApi w a path params 0 = (Resolved x, a', w')"
  shows "get_prop x ''status'' = Some (JStr ''200'')"
  using assms
  by (subst (asm) callApi.simps)
     (auto simp: Let_def split: http_result.splits option.splits if_splits outcome.splits
           dest: callApi_resolved_retry [rotated])

lemma pollStatus_resolved:
  assumes call: "callApi w a ''/amosFragrance.do'' [''checkPermissions'' \<mapsto> JNum 0] 0
      = (Resolved response, a1, w1)"
    and data: "truthy (field response ''data'')"
  shows "pollStatus w a =
     (let data = field response ''data'';
          a2 = a1\<lparr>isOn := (field data ''status'' = JBool True),
                   oilLevel := js_or (field data ''liquidLevel'') (JNum 0)\<rparr>
      in (Resolved (), a2,
          w1\<lparr>updates := updates w1 @
               [UpdOn (isOn a2), UpdFilterLifeLevel (oilLevel a2),
                UpdLockPhysicalControls (if truthy (field data ''lockMark'') then 1 else 0),
                UpdRotationSpeed (run_to_percent (js_or (field data ''run'') (JNum 0)))]\<rparr>))"
proof -
  from callApi_resolved [OF call] have t: "truthy response" by (cases response) auto
  show ?thesis
    unfolding pollStatus_def call using t data by (simp add: Let_def)
qed






lemma await_cases:
  "await p k = (r, a', w') \<Longrightarrow>
     (\<exists>x a1 w1. p = (Resolved x, a1, w1) \<and> k x a1 w1 = (r, a', w'))
   \<or> (\<exists>e. p = (Rejected e, a', w') \<and> r = Rejected e)
   \<or> (p = (Pending, a', w') \<and> r = Pending)"
  by (cases p) (auto simp: await_def split: outcome.splits)

lemma setRotationSpeed_eq:
  "v \<noteq> 0 \<Longrightarrow> updateTimerIntensity w a (max 5 (Math_round (product w v 3))) = (r1, a', w') \<Longrightarrow>
     setRotationSpeed w a v = ((case r1 of Rejected e \<Rightarrow> Rejected HapStatusError | _ \<Rightarrow> r1), a', w')"
  by (cases r1) (simp_all add: setRotationSpeed_def Let_def)

lemma sample_list_call:
  "callApi timer_world sample_accessory ''/timerList.do'' [''isBluetooth'' \<mapsto> JNum 0] 0 =
     (Resolved (JObj [(''status'', JStr ''200''), (''data'', JArr [sample_timer])]),
      sample_accessory,
      send_request timer_world sample_accessory ''/timerList.do'' [''isBluetooth'' \<mapsto> JNum 0])"
  by (rule callApi_success [where d = "[]"])
     (simp_all add: timer_world_def fresh_world_def timer_list_def)



lemma updateTimerIntensity_resolved:
  assumes "updateTimerIntensity w a n = (Resolved u, a', w')"
  shows "\<exists>listJson a1 w1 timer.
           callApi w a ''/timerList.do'' [''isBluetooth'' \<mapsto> JNum 0] 0 = (Resolved listJson, a1, w1)
         \<and> \<not> no_timers listJson
         \<and> elem0 (field listJson ''data'') = Some timer
         \<and> timerCache a' = timer"
proof -
  let ?k = "\<lambda>listJson a1 w1.
          if no_timers listJson then (Rejected NoTimersFound, a1, w1)
          else
            (case elem0 (field listJson ''data'') of
               None \<Rightarrow> (Rejected TypeError, a1, w1)
             | Some timer \<Rightarrow>
                 (let a2 = a1\<lparr>timerCache := timer\<rparr>
                  in case update_params timer n of
                       None \<Rightarrow> (Rejected TypeError, a2, w1)
                     | Some params \<Rightarrow>
                         await (callApi w1 a2 ''/updateTimer.do'' params 0)
                           (\<lambda>r a3 w3. (Resolved (), a3, w3))))"
  from assms have "await (callApi w a ''/timerList.do'' [''isBluetooth'' \<mapsto> JNum 0] 0) ?k
      = (Resolved u, a', w')"
    by (simp add: updateTimerIntensity_def)
  from await_cases [OF this] obtain listJson a1 w1 where
    list: "callApi w a ''/timerList.do'' [''isBluetooth'' \<mapsto> JNum 0] 0 = (Resolved listJson, a1, w1)"
    and k: "?k listJson a1 w1 = (Resolved u, a', w')"
    by auto
  from k have nt: "\<not> no_timers listJson" by (auto split: if_splits)
  with k obtain timer where t: "elem0 (field listJson ''data'') = Some timer"
    by (auto split: option.splits)
  with k nt obtain params where p: "update_params timer n = Some params"
    by (auto simp: Let_def split: option.splits)
  with k nt t have "await (callApi w1 (a1\<lparr>timerCache := timer\<rparr>) ''/updateTimer.do'' params 0)
      (\<lambda>r a3 w3. (Resolved (), a3, w3)) = (Resolved u, a', w')"
    by (simp add: Let_def)
  from await_cases [OF this] obtain x where
    "callApi w1 (a1\<lparr>timerCache := timer\<rparr>) ''/updateTimer.do'' params 0 = (Resolved x, a', w')"
    by auto
  from callApi_keeps(3) [OF this] have "timerCache a' = timer" by simp
  with list nt t show ?thesis by blast
qed

lemma refreshSession_in_flight:
  "refreshPromise p = Some q \<Longrightarrow> refreshSession c p = p\<lparr>returned := returned p @ [(c, q)]\<rparr>"
  by (simp add: refreshSession_def)

lemma refreshSession_idle:
  "refreshPromise p = None \<Longrightarrow>
     refreshSession c p =
       p\<lparr>logins := logins p + (if missing (email p) \<or> missing (password p) then 0 else 1),
         promises := promises p @
           [if missing (email p) \<or> missing (password p) then Throwing MissingCredentials
            else AwaitLogin],
         refreshPromise := Some (length (promises p)),
         returned := returned p @ [(c, length (promises p))]\<rparr>"
  by (simp add: refreshSession_def executeRefresh_start_def Let_def)

lemma settle_unsettled:
  assumes "q < length (promises p)" "\<not> settled (promises p ! q)"
  shows "refreshPromise (settle q r p) = None"
    and "settled (promises (settle q r p) ! q)"
    and "logins (settle q r p) = logins p"
    and "returned (settle q r p) = returned p"
    and "length (promises (settle q r p)) = length (promises p)"
    and "email (settle q r p) = email p" and "password (settle q r p) = password p"
  using assms by (cases "promises p ! q"; simp add: settle_def)+

lemmas sample_defs = retry_world_def retry401_world_def unauthorized_def expired_world_def
  calm_world_def refused_world_def scenario_world_def repoll_world_def timer_world_def
  update_fails_world_def no_timer_world_def timer_list_def empty_list_def sample_timer_def
  bare_world_def status_scenario_def bare_status_def fresh_world_def
  auth_exception_def ok_empty_def new_creds_def sample_accessory_def sample_config_def
  new_accessory_def

section \<open>The device API caller\<close>

text \<open>
  Claim C1. A call whose first answer is an authentication failure (HTTP 200, JSON status
  \<^verbatim>\<open>AuthenticationException\<close> or \<^verbatim>\<open>401\<close>) and whose second answer is HTTP 200 with JSON
  status \<^verbatim>\<open>200\<close>: \<^verbatim>\<open>refreshSession\<close> is called exactly once; and when that refresh
  resolves, with credentials \<open>c\<close>, the call sends exactly two requests and resolves with the
  second body, the cached token, uid and session id are those of \<open>c\<close>, and the second
  request, the same path and parameters again, carries a \<^verbatim>\<open>Cookie\<close> header built from
  the fields of \<open>c\<close>.
\<close>

theorem callApi_refresh_and_retry:
  assumes run: "callApi w a path params 0 = (r, a', w')"
    and first: "is_auth_answer (net w (length (sent w)))"
    and second: "is_ok_answer (net w (length (sent w) + 1)) json"
  shows "refresh_calls w' = refresh_calls w + 1
       \<and> (refresh w (refresh_calls w) = Resolved c \<longrightarrow>
            r = Resolved json
          \<and> token a' = cred_token c \<and> uid a' = cred_uid c \<and> sessionId a' = cred_sessionId c
          \<and> length (sent w') = length (sent w) + 2
          \<and> sent w' ! length (sent w) =
               request_options a (clock w (length (sent w)) / 1000) path params
          \<and> sent w' ! (length (sent w) + 1) =
               request_options a' (clock w (length (sent w) + 1) / 1000) path params
          \<and> req_headers (sent w' ! (length (sent w) + 1)) ''Cookie'' =
               Some (''appid='' @ appid a @ '';uid='' @ tmpl (cred_uid c)
                     @ '';token='' @ tmpl (cred_token c)
                     @ '';SESSIONID='' @ tmpl (cred_sessionId c)
                     @ '';username='' @ username a))"
proof -
  let ?w1 = "send_request w a path params"
  let ?w2 = "?w1\<lparr>refresh_calls := refresh_calls w + 1\<rparr>"
  from first obtain d j st where ans: "net w (length (sent w)) = Response 200 d (Some j)"
    "get_prop j ''status'' = Some st" "auth_failure st"
    by (auto dest: is_auth_answerD)
  note eq = callApi_first_auth [OF ans, of a path params]
  have once: "refresh_calls w' = refresh_calls w + 1"
  proof (cases "refresh w (refresh_calls w)")
    case (Resolved c')
    let ?b = "a\<lparr>token := cred_token c', uid := cred_uid c', sessionId := cred_sessionId c'\<rparr>"
    from callApi_retry [of 1 ?w2 ?b path params]
    obtain r2 where "callApi ?w2 ?b path params 1 = (r2, ?b, send_request ?w2 ?b path params)"
      by auto
    with eq run Resolved show ?thesis by (auto simp: Let_def)
  next
    case (Rejected e)
    with eq run show ?thesis by (auto simp: Let_def)
  next
    case Pending
    with eq run show ?thesis by (auto simp: Let_def)
  qed
  have retry: "r = Resolved json
          \<and> token a' = cred_token c \<and> uid a' = cred_uid c \<and> sessionId a' = cred_sessionId c
          \<and> length (sent w') = length (sent w) + 2
          \<and> sent w' ! length (sent w) =
               request_options a (clock w (length (sent w)) / 1000) path params
          \<and> sent w' ! (length (sent w) + 1) =
               request_options a' (clock w (length (sent w) + 1) / 1000) path params
          \<and> req_headers (sent w' ! (length (sent w) + 1)) ''Cookie'' =
               Some (''appid='' @ appid a @ '';uid='' @ tmpl (cred_uid c)
                     @ '';token='' @ tmpl (cred_token c)
                     @ '';SESSIONID='' @ tmpl (cred_sessionId c)
                     @ '';username='' @ username a)"
    if c: "refresh w (refresh_calls w) = Resolved c"
  proof -
    let ?a2 = "a\<lparr>token := cred_token c, uid := cred_uid c, sessionId := cred_sessionId c\<rparr>"
    from second obtain d2 where ans2: "net ?w2 (length (sent ?w2)) = Response 200 d2 (Some json)"
      and ok: "get_prop json ''status'' = Some (JStr ''200'')"
      by (auto simp: is_ok_answer_def split: http_result.splits option.splits)
    have "callApi w a path params 0 = callApi ?w2 ?a2 path params 1"
      using eq c by (simp add: Let_def)
    also have "\<dots> = (Resolved json, ?a2, send_request ?w2 ?a2 path params)"
      by (rule callApi_success [OF ans2 ok])
    finally have "r = Resolved json" "a' = ?a2" "w' = send_request ?w2 ?a2 path params"
      using run by simp_all
    then show ?thesis
      by (simp add: nth_append request_options_def cookie_def)
  qed
  from once retry show ?thesis by blast
qed

text \<open>
  The retry scenario of the test suite (old token, one refresh, new token in the cookie),
  once with the status \<^verbatim>\<open>AuthenticationException\<close> and once with the status \<^verbatim>\<open>401\<close>.
\<close>

theorem callApi_refresh_and_retry_witness:
  "(case callApi retry_world sample_accessory ''/openFragrance.do'' Map.empty 0 of
     (r, a', w') \<Rightarrow>
       is_auth_answer (net retry_world (length (sent retry_world)))
     \<and> is_ok_answer (net retry_world (length (sent retry_world) + 1))
          (JObj [(''status'', JStr ''200'')])
     \<and> refresh retry_world (refresh_calls retry_world) = Resolved new_creds
     \<and> r = Resolved (JObj [(''status'', JStr ''200'')])
     \<and> refresh_calls w' = 1
     \<and> length (sent w') = 2
     \<and> token a' = Some ''new-token''
     \<and> req_headers (sent w' ! 1) ''Cookie'' =
          Some ''appid=19987617;uid=17;token=new-token;SESSIONID=new-session;username=user@example.org'')
 \<and> (case callApi retry401_world sample_accessory ''/openFragrance.do'' Map.empty 0 of
     (r, a', w') \<Rightarrow>
       is_auth_answer (net retry401_world (length (sent retry401_world)))
     \<and> is_ok_answer (net retry401_world (length (sent retry401_world) + 1))
          (JObj [(''status'', JStr ''200'')])
     \<and> refresh retry401_world (refresh_calls retry401_world) = Resolved new_creds
     \<and> r = Resolved (JObj [(''status'', JStr ''200'')])
     \<and> refresh_calls w' = 1
     \<and> length (sent w') = 2
     \<and> token a' = Some ''new-token'')"
proof -
  obtain r a' w' where run:
    "callApi retry_world sample_accessory ''/openFragrance.do'' Map.empty 0 = (r, a', w')"
    by (cases "callApi retry_world sample_accessory ''/openFragrance.do'' Map.empty 0")
  have h1: "is_auth_answer (net retry_world (length (sent retry_world)))"
    by (simp add: sample_defs is_auth_answer_def auth_failure_def)
  have h3: "is_ok_answer (net retry_world (length (sent retry_world) + 1))
      (JObj [(''status'', JStr ''200'')])"
    by (simp add: sample_defs is_ok_answer_def)
  have r0: "refresh retry_world (refresh_calls retry_world) = Resolved new_creds"
    "refresh_calls retry_world = 0" "sent retry_world = []"
    by (simp_all add: sample_defs)
  from callApi_refresh_and_retry [OF run h1 h3, of new_creds] h1 h3 r0
  have first: "case callApi retry_world sample_accessory ''/openFragrance.do'' Map.empty 0 of
     (r, a', w') \<Rightarrow>
       is_auth_answer (net retry_world (length (sent retry_world)))
     \<and> is_ok_answer (net retry_world (length (sent retry_world) + 1))
          (JObj [(''status'', JStr ''200'')])
     \<and> refresh retry_world (refresh_calls retry_world) = Resolved new_creds
     \<and> r = Resolved (JObj [(''status'', JStr ''200'')])
     \<and> refresh_calls w' = 1
     \<and> length (sent w') = 2
     \<and> token a' = Some ''new-token''
     \<and> req_headers (sent w' ! 1) ''Cookie'' =
          Some ''appid=19987617;uid=17;token=new-token;SESSIONID=new-session;username=user@example.org''"
    unfolding run
    by (auto simp: tmpl_def new_creds_def sample_accessory_def sample_config_def
          new_accessory_def)
  obtain s b' v' where run2:
    "callApi retry401_world sample_accessory ''/openFragrance.do'' Map.empty 0 = (s, b', v')"
    by (cases "callApi retry401_world sample_accessory ''/openFragrance.do'' Map.empty 0")
  have k1: "is_auth_answer (net retry401_world (length (sent retry401_world)))"
    by (simp add: sample_defs is_auth_answer_def auth_failure_def)
  have k3: "is_ok_answer (net retry401_world (length (sent retry401_world) + 1))
      (JObj [(''status'', JStr ''200'')])"
    by (simp add: sample_defs is_ok_answer_def)
  have q0: "refresh retry401_world (refresh_calls retry401_world) = Resolved new_creds"
    "refresh_calls retry401_world = 0" "sent retry401_world = []"
    by (simp_all add: sample_defs)
  from callApi_refresh_and_retry [OF run2 k1 k3, of new_creds] k1 k3 q0
  have second: "case callApi retry401_world sample_accessory ''/openFragrance.do'' Map.empty 0 of
     (r, a', w') \<Rightarrow>
       is_auth_answer (net retry401_world (length (sent retry401_world)))
     \<and> is_ok_answer (net retry401_world (length (sent retry401_world) + 1))
          (JObj [(''status'', JStr ''200'')])
     \<and> refresh retry401_world (refresh_calls retry401_world) = Resolved new_creds
     \<and> r = Resolved (JObj [(''status'', JStr ''200'')])
     \<and> refresh_calls w' = 1
     \<and> length (sent w') = 2
     \<and> token a' = Some ''new-token''"
    unfolding run2 by (auto simp: new_creds_def)
  from first second show ?thesis by blast
qed

text \<open>
  Claim C2. A logical call (retry count 0) issues at most two requests and calls
  \<^verbatim>\<open>refreshSession\<close> at most once. When its first and its second answer are both
  authentication failures, it is rejected with the after-retry error and exactly two requests
  were issued: there is no third.
\<close>

theorem callApi_single_retry:
  assumes run: "callApi w a path params 0 = (r, a', w')"
  shows "length (sent w') \<le> length (sent w) + 2
       \<and> refresh_calls w' \<le> refresh_calls w + 1
       \<and> (is_auth_answer (net w (length (sent w)))
            \<and> length (sent w) + 1 < length (sent w')
            \<and> is_auth_answer (net w (length (sent w) + 1))
          \<longrightarrow> r = Rejected AuthFailedAfterRetry \<and> length (sent w') = length (sent w) + 2)"
proof -
  have bounds: "length (sent w') \<le> length (sent w) + 2 \<and> refresh_calls w' \<le> refresh_calls w + 1"
    using callApi_shape [OF run] by auto
  have "r = Rejected AuthFailedAfterRetry \<and> length (sent w') = length (sent w) + 2"
    if first: "is_auth_answer (net w (length (sent w)))"
      and second_sent: "length (sent w) + 1 < length (sent w')"
      and second: "is_auth_answer (net w (length (sent w) + 1))"
  proof -
    let ?w2 = "(send_request w a path params)\<lparr>refresh_calls := refresh_calls w + 1\<rparr>"
    from first obtain d j st where ans: "net w (length (sent w)) = Response 200 d (Some j)"
      "get_prop j ''status'' = Some st" "auth_failure st"
      by (auto dest: is_auth_answerD)
    note eq = callApi_first_auth [OF ans, of a path params]
    have "\<exists>c. refresh w (refresh_calls w) = Resolved c"
    proof (cases "refresh w (refresh_calls w)")
      case (Rejected e)
      with eq run second_sent show ?thesis by (auto simp: Let_def)
    next
      case Pending
      with eq run second_sent show ?thesis by (auto simp: Let_def)
    qed simp
    then obtain c where c: "refresh w (refresh_calls w) = Resolved c" ..
    let ?a2 = "a\<lparr>token := cred_token c, uid := cred_uid c, sessionId := cred_sessionId c\<rparr>"
    from second obtain d2 j2 st2 where ans2:
      "net ?w2 (length (sent ?w2)) = Response 200 d2 (Some j2)"
      "get_prop j2 ''status'' = Some st2" "auth_failure st2"
      by (auto dest: is_auth_answerD)
    have "callApi w a path params 0 = callApi ?w2 ?a2 path params 1"
      using eq c by (simp add: Let_def)
    also have "\<dots> = (Rejected AuthFailedAfterRetry, ?a2, send_request ?w2 ?a2 path params)"
      by (rule callApi_retry_auth [OF _ ans2]) simp
    finally show ?thesis using run by auto
  qed
  with bounds show ?thesis by blast
qed

text \<open>Two authentication failures in a row.\<close>

theorem callApi_single_retry_witness:
  "case callApi expired_world sample_accessory ''/openFragrance.do'' Map.empty 0 of
     (r, a', w') \<Rightarrow>
       is_auth_answer (net expired_world (length (sent expired_world)))
     \<and> length (sent expired_world) + 1 < length (sent w')
     \<and> is_auth_answer (net expired_world (length (sent expired_world) + 1))
     \<and> r = Rejected AuthFailedAfterRetry \<and> length (sent w') = 2 \<and> refresh_calls w' \<le> 1"
proof -
  obtain r a' w' where run:
    "callApi expired_world sample_accessory ''/openFragrance.do'' Map.empty 0 = (r, a', w')"
    by (cases "callApi expired_world sample_accessory ''/openFragrance.do'' Map.empty 0")
  have h1: "is_auth_answer (net expired_world (length (sent expired_world)))"
    and h3: "is_auth_answer (net expired_world (length (sent expired_world) + 1))"
    by (simp_all add: sample_defs is_auth_answer_def auth_failure_def)
  have "length (sent (snd (snd (callApi expired_world sample_accessory ''/openFragrance.do'' Map.empty 0)))) = 2"
    by (simp add: callApi.simps sample_defs auth_failure_def Let_def)
  with run have h2: "length (sent expired_world) + 1 < length (sent w')"
    by (simp add: sample_defs)
  have r0: "refresh_calls expired_world = 0" "sent expired_world = []"
    by (simp_all add: sample_defs)
  from callApi_single_retry [OF run] run h1 h2 h3 r0
  show ?thesis by auto
qed

text \<open>
  Claim C4, as amended. Every request of a call has the keys \<^verbatim>\<open>nid\<close> and \<^verbatim>\<open>timestamp\<close>
  in its query. They carry the device id and the clock reading (in seconds) unless the
  caller's parameters have such a key: every parameter of the caller is sent with the
  caller's value, \<^verbatim>\<open>nid\<close> and \<^verbatim>\<open>timestamp\<close> included, since the parameters are spread over
  the two defaults. A path that starts with \<^verbatim>\<open>/admin\<close> is requested as it is; any other
  path follows the base path.
\<close>

theorem callApi_query_and_path:
  assumes run: "callApi w a path params 0 = (r, a', w')"
    and i: "length (sent w) \<le> i" "i < length (sent w')"
  shows "req_query (sent w' ! i) ''nid'' =
           Some (case params ''nid'' of None \<Rightarrow> JStr (nid a) | Some v \<Rightarrow> v)
       \<and> req_query (sent w' ! i) ''timestamp'' =
           Some (case params ''timestamp'' of None \<Rightarrow> JNum (clock w i / 1000) | Some v \<Rightarrow> v)
       \<and> (\<forall>k v. params k = Some v \<longrightarrow> req_query (sent w' ! i) k = Some v)
       \<and> (prefix ''/admin'' path \<longrightarrow> req_resource (sent w' ! i) = path)
       \<and> (\<not> prefix ''/admin'' path \<longrightarrow> req_resource (sent w' ! i) = basePath a @ path)"
proof -
  from callApi_sent_nth [OF run i] obtain b where
    b: "nid b = nid a" "basePath b = basePath a"
       "sent w' ! i = request_options b (clock w i / 1000) path params"
    by blast
  then show ?thesis
    by (auto simp: request_options_def queryParams_def resourcePath_def map_add_def
             split: option.splits)
qed

text \<open>The unlock call: an admin path, two parameters of the caller, the two defaults.\<close>

theorem callApi_query_and_path_witness:
  "case callApi calm_world sample_accessory ''/admin/amos/deviceUnlock.do'' [''days'' \<mapsto> JNum 0, ''name'' \<mapsto> JStr []] 0 of
     (r, a', w') \<Rightarrow>
       length (sent calm_world) \<le> 0 \<and> 0 < length (sent w')
     \<and> [''days'' \<mapsto> JNum 0, ''name'' \<mapsto> JStr []] ''days'' = Some (JNum 0)
     \<and> prefix ''/admin'' ''/admin/amos/deviceUnlock.do''
     \<and> req_query (sent w' ! 0) ''nid'' = Some (JStr ''4711'')
     \<and> req_query (sent w' ! 0) ''timestamp'' = Some (JNum 1700000000)
     \<and> req_query (sent w' ! 0) ''days'' = Some (JNum 0)
     \<and> req_resource (sent w' ! 0) = ''/admin/amos/deviceUnlock.do''"
proof -
  let ?ps = "[''days'' \<mapsto> JNum 0, ''name'' \<mapsto> JStr []]"
  obtain r a' w' where run:
    "callApi calm_world sample_accessory ''/admin/amos/deviceUnlock.do'' ?ps 0 = (r, a', w')"
    by (cases "callApi calm_world sample_accessory ''/admin/amos/deviceUnlock.do'' ?ps 0")
  have e: "sent calm_world = []" "clock calm_world 0 = 1700000000000"
    by (simp_all add: sample_defs)
  have "length (sent (snd (snd (callApi calm_world sample_accessory ''/admin/amos/deviceUnlock.do'' ?ps 0)))) = 1"
    by (simp add: callApi.simps sample_defs auth_failure_def Let_def)
  with run have h2: "0 < length (sent w')" by simp
  have h1: "length (sent calm_world) \<le> 0" by (simp add: e)
  from callApi_query_and_path [OF run h1 h2] run h1 h2 e
  show ?thesis
    by (simp add: sample_accessory_def sample_config_def new_accessory_def)
qed

text \<open>
  Claim C4 as stated fails: a caller who passes a parameter named \<^verbatim>\<open>nid\<close> replaces the
  device id in the query.
\<close>

theorem callApi_query_counterexample:
  "req_query (hd (sent (snd (snd (callApi calm_world sample_accessory ''/timerList.do''
      [''nid'' \<mapsto> JStr ''0000''] 0))))) ''nid'' = Some (JStr ''0000'')
   \<and> req_query (hd (sent (snd (snd (callApi calm_world sample_accessory ''/timerList.do''
      [''nid'' \<mapsto> JStr ''0000''] 0))))) ''nid'' \<noteq> Some (JStr (nid sample_accessory))"
  by (simp add: callApi.simps sample_defs auth_failure_def Let_def request_options_def
        queryParams_def)

section \<open>Child lock\<close>

text \<open>
  Claim C8. A lock request with value \<open>v\<close> calls the lock endpoint when \<open>v\<close> is truthy and
  the unlock endpoint, with \<^verbatim>\<open>days=0\<close> and an empty \<^verbatim>\<open>name\<close>, otherwise; both are admin
  paths, requested as they are. When that call is rejected, an update of the lock
  characteristic to the opposite of \<open>v\<close> (0 for a truthy \<open>v\<close>, 1 otherwise) is scheduled
  500 ms later and the operation is rejected with the HAP status error. When the call
  resolves, the operation resolves and a status poll is scheduled 1000 ms later.
\<close>

theorem setLock_endpoint_and_rollback:
  assumes run: "setLock w a v = (r, a', w')"
    and call: "callApi w a (if truthy v then ''/admin/amos/deviceLock.do'' else ''/admin/amos/deviceUnlock.do'')
                 (if truthy v then Map.empty else [''days'' \<mapsto> JNum 0, ''name'' \<mapsto> JStr []]) 0 = (r1, a1, w1)"
  shows "length (sent w) < length (sent w')
       \<and> req_resource (sent w' ! length (sent w)) =
           (if truthy v then ''/admin/amos/deviceLock.do'' else ''/admin/amos/deviceUnlock.do'')
       \<and> (\<not> truthy v \<longrightarrow> req_query (sent w' ! length (sent w)) ''days'' = Some (JNum 0)
                        \<and> req_query (sent w' ! length (sent w)) ''name'' = Some (JStr []))
       \<and> ((\<exists>err. r1 = Rejected err) \<longrightarrow>
            r = Rejected HapStatusError
          \<and> timeouts w' = timeouts w @
              [(500, TaskUpdate (UpdLockPhysicalControls (if truthy v then 0 else 1)))])
       \<and> ((\<exists>json. r1 = Resolved json) \<longrightarrow>
            r = Resolved () \<and> timeouts w' = timeouts w @ [(1000, TaskPollStatus)])"
proof -
  let ?path = "if truthy v then ''/admin/amos/deviceLock.do'' else ''/admin/amos/deviceUnlock.do''"
  let ?ps = "if truthy v then Map.empty else [''days'' \<mapsto> JNum 0, ''name'' \<mapsto> JStr []]"
  have eq: "setLock w a v =
     (case (r1, a1, w1) of
        (Resolved r, a1, w1) \<Rightarrow>
          (Resolved (), a1, w1\<lparr>timeouts := timeouts w1 @ [(1000, TaskPollStatus)]\<rparr>)
      | (Rejected err, a1, w1) \<Rightarrow>
          (Rejected HapStatusError, a1,
           w1\<lparr>timeouts := timeouts w1 @
              [(500, TaskUpdate (UpdLockPhysicalControls (if \<not> truthy v then 1 else 0)))]\<rparr>)
      | (Pending, a1, w1) \<Rightarrow> (Pending, a1, w1))"
    using call unfolding setLock_def by (cases "truthy v") simp_all
  have s': "sent w' = sent w1"
    using run eq by (cases r1) auto
  note fr = callApi_first_request [OF call]
  from fr(1) have len: "length (sent w) < length (sent w1)" .
  have res: "req_resource (sent w1 ! length (sent w)) = ?path"
    by (simp add: fr(2) request_options_def resourcePath_def)
  have days: "req_query (sent w1 ! length (sent w)) ''days'' = Some (JNum 0)
      \<and> req_query (sent w1 ! length (sent w)) ''name'' = Some (JStr [])" if "\<not> truthy v"
    using that by (simp add: fr(2) request_options_def queryParams_def map_add_def)
  have t: "timeouts w1 = timeouts w" by (rule callApi_keeps(10) [OF call])
  show ?thesis
    using run eq s' len res days t by (cases r1) auto
qed


text \<open>A lock request answered with HTTP 500, and an unlock request that succeeds.\<close>

theorem setLock_endpoint_and_rollback_witness:
  "(case setLock refused_world sample_accessory (JNum 1) of
     (r, a', w') \<Rightarrow>
       (\<exists>err. fst (callApi refused_world sample_accessory ''/admin/amos/deviceLock.do'' Map.empty 0)
          = Rejected err)
     \<and> r = Rejected HapStatusError
     \<and> timeouts w' = [(500, TaskUpdate (UpdLockPhysicalControls 0))]
     \<and> req_resource (sent w' ! 0) = ''/admin/amos/deviceLock.do'')
 \<and> (case setLock calm_world sample_accessory (JNum 0) of
     (r, a', w') \<Rightarrow>
       \<not> truthy (JNum 0)
     \<and> (\<exists>json. fst (callApi calm_world sample_accessory ''/admin/amos/deviceUnlock.do''
                       [''days'' \<mapsto> JNum 0, ''name'' \<mapsto> JStr []] 0) = Resolved json)
     \<and> r = Resolved ()
     \<and> timeouts w' = [(1000, TaskPollStatus)]
     \<and> req_resource (sent w' ! 0) = ''/admin/amos/deviceUnlock.do''
     \<and> req_query (sent w' ! 0) ''days'' = Some (JNum 0)
     \<and> req_query (sent w' ! 0) ''name'' = Some (JStr []))"
proof -
  obtain r a' w' where run: "setLock refused_world sample_accessory (JNum 1) = (r, a', w')"
    by (cases "setLock refused_world sample_accessory (JNum 1)")
  obtain r1 a1 w1 where call0:
    "callApi refused_world sample_accessory ''/admin/amos/deviceLock.do'' Map.empty 0 = (r1, a1, w1)"
    by (cases "callApi refused_world sample_accessory ''/admin/amos/deviceLock.do'' Map.empty 0")
  then have call: "callApi refused_world sample_accessory
      (if truthy (JNum 1) then ''/admin/amos/deviceLock.do'' else ''/admin/amos/deviceUnlock.do'')
      (if truthy (JNum 1) then Map.empty else [''days'' \<mapsto> JNum 0, ''name'' \<mapsto> JStr []]) 0
        = (r1, a1, w1)"
    by simp
  have "fst (callApi refused_world sample_accessory ''/admin/amos/deviceLock.do'' Map.empty 0)
      = Rejected (ApiHttpError 500)"
    by (simp add: callApi.simps refused_world_def fresh_world_def Let_def)
  with call0 have r1: "r1 = Rejected (ApiHttpError 500)" by simp
  have e: "sent refused_world = []" "timeouts refused_world = []"
    by (simp_all add: refused_world_def fresh_world_def)
  from setLock_endpoint_and_rollback [OF run call] run call0 r1 e
  have first: "case setLock refused_world sample_accessory (JNum 1) of
     (r, a', w') \<Rightarrow>
       (\<exists>err. fst (callApi refused_world sample_accessory ''/admin/amos/deviceLock.do'' Map.empty 0)
          = Rejected err)
     \<and> r = Rejected HapStatusError
     \<and> timeouts w' = [(500, TaskUpdate (UpdLockPhysicalControls 0))]
     \<and> req_resource (sent w' ! 0) = ''/admin/amos/deviceLock.do''"
    by simp
  let ?ps = "[''days'' \<mapsto> JNum 0, ''name'' \<mapsto> JStr []]"
  obtain s b' v' where run2: "setLock calm_world sample_accessory (JNum 0) = (s, b', v')"
    by (cases "setLock calm_world sample_accessory (JNum 0)")
  obtain s1 b1 v1 where call2:
    "callApi calm_world sample_accessory ''/admin/amos/deviceUnlock.do'' ?ps 0 = (s1, b1, v1)"
    by (cases "callApi calm_world sample_accessory ''/admin/amos/deviceUnlock.do'' ?ps 0")
  then have call2': "callApi calm_world sample_accessory
      (if truthy (JNum 0) then ''/admin/amos/deviceLock.do'' else ''/admin/amos/deviceUnlock.do'')
      (if truthy (JNum 0) then Map.empty else ?ps) 0 = (s1, b1, v1)"
    by simp
  have "fst (callApi calm_world sample_accessory ''/admin/amos/deviceUnlock.do'' ?ps 0)
      = Resolved (JObj [(''status'', JStr ''200'')])"
    by (simp add: callApi.simps sample_defs auth_failure_def Let_def)
  with call2 have s1: "s1 = Resolved (JObj [(''status'', JStr ''200'')])" by simp
  have e2: "sent calm_world = []" "timeouts calm_world = []"
    by (simp_all add: sample_defs)
  from setLock_endpoint_and_rollback [OF run2 call2'] run2 call2 s1 e2
  have second: "case setLock calm_world sample_accessory (JNum 0) of
     (r, a', w') \<Rightarrow>
       \<not> truthy (JNum 0)
     \<and> (\<exists>json. fst (callApi calm_world sample_accessory ''/admin/amos/deviceUnlock.do'' ?ps 0)
            = Resolved json)
     \<and> r = Resolved ()
     \<and> timeouts w' = [(1000, TaskPollStatus)]
     \<and> req_resource (sent w' ! 0) = ''/admin/amos/deviceUnlock.do''
     \<and> req_query (sent w' ! 0) ''days'' = Some (JNum 0)
     \<and> req_query (sent w' ! 0) ''name'' = Some (JStr [])"
    by simp
  from first second show ?thesis by blast
qed

section \<open>Status poll\<close>

text \<open>
  Claim C6. A poll whose status call resolves, at the first request or at the retry after a
  refresh, with a body whose \<^verbatim>\<open>data\<close> is truthy: the poll resolves; \<^verbatim>\<open>isOn\<close> becomes
  whether the wire \<^verbatim>\<open>status\<close> is the boolean \<^verbatim>\<open>true\<close>; the consumable level becomes the
  wire \<^verbatim>\<open>liquidLevel\<close> when that is truthy and 0 otherwise, in particular when it is
  absent; the lock characteristic is updated to 1 for a truthy \<^verbatim>\<open>lockMark\<close> and to 0
  otherwise; the rotation speed is updated to the minimum of 100 and a third of
  \<^verbatim>\<open>run\<close> (0 when absent), rounded. For the body
  \<^verbatim>\<open>{status:"200", data:{status:true, run:90, liquidLevel:0, lockMark:true}}\<close> that is:
  on, level 0, locked, 30 percent.
\<close>

theorem pollStatus_snapshot:
  assumes call: "callApi w a ''/amosFragrance.do'' [''checkPermissions'' \<mapsto> JNum 0] 0
      = (Resolved response, a1, w1)"
    and data: "field response ''data'' = data" "truthy data"
    and run: "pollStatus w a = (r, a', w')"
  shows "r = Resolved ()
       \<and> isOn a' = (field data ''status'' = JBool True)
       \<and> oilLevel a' = (if truthy (field data ''liquidLevel'') then field data ''liquidLevel'' else JNum 0)
       \<and> (field data ''liquidLevel'' = JUndefined \<longrightarrow> oilLevel a' = JNum 0)
       \<and> updates w' = updates w @
            [UpdOn (isOn a'), UpdFilterLifeLevel (oilLevel a'),
             UpdLockPhysicalControls (if truthy (field data ''lockMark'') then 1 else 0),
             UpdRotationSpeed
               (map_option (\<lambda>x. min 100 (Math_round (x / 3)))
                  (num_of (if truthy (field data ''run'') then field data ''run'' else JNum 0)))]
       \<and> (response = status_scenario \<longrightarrow>
            isOn a' \<and> oilLevel a' = JNum 0
          \<and> updates w' = updates w @
              [UpdOn True, UpdFilterLifeLevel (JNum 0), UpdLockPhysicalControls 1,
               UpdRotationSpeed (Some 30)])"
proof -
  have d: "truthy (field response ''data'')" using data by simp
  note eq = pollStatus_resolved [OF call d]
  have keep: "updates w1 = updates w" by (rule callApi_keeps(11) [OF call])
  have sc: "data = JObj [(''status'', JBool True), (''run'', JNum 90),
                            (''liquidLevel'', JNum 0), (''lockMark'', JBool True)]"
    if "response = status_scenario"
    using that data(1) by (simp add: status_scenario_def field_def)
  have r: "r = Resolved ()"
    and a': "a' = a1\<lparr>isOn := (field data ''status'' = JBool True),
                  oilLevel := js_or (field data ''liquidLevel'') (JNum 0)\<rparr>"
    and w': "updates w' = updates w @
               [UpdOn (isOn a'), UpdFilterLifeLevel (oilLevel a'),
                UpdLockPhysicalControls (if truthy (field data ''lockMark'') then 1 else 0),
                UpdRotationSpeed (run_to_percent (js_or (field data ''run'') (JNum 0)))]"
    using run eq data(1) keep by (auto simp: Let_def)
  have g: "isOn a' = (field data ''status'' = JBool True)
       \<and> oilLevel a' = (if truthy (field data ''liquidLevel'') then field data ''liquidLevel'' else JNum 0)
       \<and> (field data ''liquidLevel'' = JUndefined \<longrightarrow> oilLevel a' = JNum 0)"
    using a' by (simp add: js_or_def)
  have u: "updates w' = updates w @
            [UpdOn (isOn a'), UpdFilterLifeLevel (oilLevel a'),
             UpdLockPhysicalControls (if truthy (field data ''lockMark'') then 1 else 0),
             UpdRotationSpeed
               (map_option (\<lambda>x. min 100 (Math_round (x / 3)))
                  (num_of (if truthy (field data ''run'') then field data ''run'' else JNum 0)))]"
    using w' by (simp add: run_to_percent_def js_or_def)
  have s: "isOn a' \<and> oilLevel a' = JNum 0
          \<and> updates w' = updates w @
              [UpdOn True, UpdFilterLifeLevel (JNum 0), UpdLockPhysicalControls 1,
               UpdRotationSpeed (Some 30)]" if "response = status_scenario"
    using g u sc [OF that] by (simp add: field_def Math_round_def)
  from r g u s show ?thesis by blast
qed

text \<open>
  The scenario answered at once; the scenario answered at the retry, after an
  authentication failure and a refresh; and a body whose data has neither level nor run nor
  lock mark and whose status is a string.
\<close>

theorem pollStatus_snapshot_witness:
  "(case pollStatus scenario_world sample_accessory of
      (r, a', w') \<Rightarrow>
        fst (callApi scenario_world sample_accessory ''/amosFragrance.do''
               [''checkPermissions'' \<mapsto> JNum 0] 0) = Resolved status_scenario
      \<and> truthy (field status_scenario ''data'')
      \<and> r = Resolved () \<and> isOn a' \<and> oilLevel a' = JNum 0
      \<and> updates w' = [UpdOn True, UpdFilterLifeLevel (JNum 0), UpdLockPhysicalControls 1,
                        UpdRotationSpeed (Some 30)])
 \<and> (case pollStatus repoll_world sample_accessory of
      (r, a', w') \<Rightarrow>
        fst (callApi repoll_world sample_accessory ''/amosFragrance.do''
               [''checkPermissions'' \<mapsto> JNum 0] 0) = Resolved status_scenario
      \<and> r = Resolved () \<and> isOn a' \<and> oilLevel a' = JNum 0
      \<and> length (sent w') = 2 \<and> refresh_calls w' = 1
      \<and> updates w' = [UpdOn True, UpdFilterLifeLevel (JNum 0), UpdLockPhysicalControls 1,
                        UpdRotationSpeed (Some 30)])
 \<and> (case pollStatus bare_world sample_accessory of
      (r, a', w') \<Rightarrow>
        fst (callApi bare_world sample_accessory ''/amosFragrance.do''
               [''checkPermissions'' \<mapsto> JNum 0] 0) = Resolved bare_status
      \<and> truthy (field bare_status ''data'')
      \<and> field (field bare_status ''data'') ''liquidLevel'' = JUndefined
      \<and> \<not> isOn a' \<and> oilLevel a' = JNum 0
      \<and> updates w' = [UpdOn False, UpdFilterLifeLevel (JNum 0), UpdLockPhysicalControls 0,
                        UpdRotationSpeed (Some 0)])"
proof -
  let ?ps = "[''checkPermissions'' \<mapsto> JNum 0]"
  have h2: "truthy (field status_scenario ''data'')"
    by (simp add: status_scenario_def field_def)
  obtain r a' w' where run: "pollStatus scenario_world sample_accessory = (r, a', w')"
    by (cases "pollStatus scenario_world sample_accessory")
  have call: "callApi scenario_world sample_accessory ''/amosFragrance.do'' ?ps 0
      = (Resolved status_scenario, sample_accessory,
         send_request scenario_world sample_accessory ''/amosFragrance.do'' ?ps)"
    by (rule callApi_success [where d = "[]"])
       (simp_all add: scenario_world_def fresh_world_def status_scenario_def)
  have e: "updates scenario_world = []"
    by (simp add: scenario_world_def fresh_world_def)
  from pollStatus_snapshot [OF call refl h2 run]
  have "r = Resolved () \<and> isOn a' \<and> oilLevel a' = JNum 0
      \<and> updates w' = updates scenario_world @
          [UpdOn True, UpdFilterLifeLevel (JNum 0), UpdLockPhysicalControls 1,
           UpdRotationSpeed (Some 30)]"
    by blast
  with h2 have first: "case pollStatus scenario_world sample_accessory of
      (r, a', w') \<Rightarrow>
        fst (callApi scenario_world sample_accessory ''/amosFragrance.do'' ?ps 0)
          = Resolved status_scenario
      \<and> truthy (field status_scenario ''data'')
      \<and> r = Resolved () \<and> isOn a' \<and> oilLevel a' = JNum 0
      \<and> updates w' = [UpdOn True, UpdFilterLifeLevel (JNum 0), UpdLockPhysicalControls 1,
                        UpdRotationSpeed (Some 30)]"
    unfolding run e call by simp
  obtain t c' x' where run3: "pollStatus repoll_world sample_accessory = (t, c', x')"
    by (cases "pollStatus repoll_world sample_accessory")
  obtain t1 c1 x1 where call3:
    "callApi repoll_world sample_accessory ''/amosFragrance.do'' ?ps 0 = (t1, c1, x1)"
    by (cases "callApi repoll_world sample_accessory ''/amosFragrance.do'' ?ps 0")
  have "fst (callApi repoll_world sample_accessory ''/amosFragrance.do'' ?ps 0)
      = Resolved status_scenario"
    and "length (sent (snd (snd (callApi repoll_world sample_accessory ''/amosFragrance.do'' ?ps 0)))) = 2"
    and "refresh_calls (snd (snd (callApi repoll_world sample_accessory ''/amosFragrance.do'' ?ps 0))) = 1"
    by (simp_all add: callApi.simps sample_defs auth_failure_def Let_def)
  with call3 have t1: "t1 = Resolved status_scenario" "length (sent x1) = 2" "refresh_calls x1 = 1"
    by simp_all
  have e3: "updates repoll_world = []"
    by (simp add: repoll_world_def fresh_world_def)
  have x': "sent x' = sent x1" "refresh_calls x' = refresh_calls x1"
    using run3 pollStatus_resolved [OF call3 [unfolded t1(1)] h2] by (auto simp: Let_def)
  from pollStatus_snapshot [OF call3 [unfolded t1(1)] refl h2 run3]
  have "t = Resolved () \<and> isOn c' \<and> oilLevel c' = JNum 0
      \<and> updates x' = updates repoll_world @
          [UpdOn True, UpdFilterLifeLevel (JNum 0), UpdLockPhysicalControls 1,
           UpdRotationSpeed (Some 30)]"
    by blast
  with t1 x' have third: "case pollStatus repoll_world sample_accessory of
      (r, a', w') \<Rightarrow>
        fst (callApi repoll_world sample_accessory ''/amosFragrance.do'' ?ps 0)
          = Resolved status_scenario
      \<and> r = Resolved () \<and> isOn a' \<and> oilLevel a' = JNum 0
      \<and> length (sent w') = 2 \<and> refresh_calls w' = 1
      \<and> updates w' = [UpdOn True, UpdFilterLifeLevel (JNum 0), UpdLockPhysicalControls 1,
                        UpdRotationSpeed (Some 30)]"
    unfolding run3 e3 call3 by simp
  obtain s b' v' where run2: "pollStatus bare_world sample_accessory = (s, b', v')"
    by (cases "pollStatus bare_world sample_accessory")
  have call2: "callApi bare_world sample_accessory ''/amosFragrance.do'' ?ps 0
      = (Resolved bare_status, sample_accessory,
         send_request bare_world sample_accessory ''/amosFragrance.do'' ?ps)"
    by (rule callApi_success [where d = "[]"])
       (simp_all add: bare_world_def fresh_world_def bare_status_def)
  have k2: "truthy (field bare_status ''data'')"
    and k3: "field (field bare_status ''data'') ''liquidLevel'' = JUndefined"
    and k4: "field (field bare_status ''data'') ''status'' = JStr ''on''"
      "field (field bare_status ''data'') ''run'' = JUndefined"
      "field (field bare_status ''data'') ''lockMark'' = JUndefined"
    by (simp_all add: bare_status_def field_def)
  have e2: "updates bare_world = []"
    by (simp add: bare_world_def fresh_world_def)
  from pollStatus_snapshot [OF call2 refl k2 run2]
  have "isOn b' = (field (field bare_status ''data'') ''status'' = JBool True)"
    and "field (field bare_status ''data'') ''liquidLevel'' = JUndefined \<longrightarrow> oilLevel b' = JNum 0"
    and "updates v' = updates bare_world @
            [UpdOn (isOn b'), UpdFilterLifeLevel (oilLevel b'),
             UpdLockPhysicalControls
               (if truthy (field (field bare_status ''data'') ''lockMark'') then 1 else 0),
             UpdRotationSpeed
               (map_option (\<lambda>x. min 100 (Math_round (x / 3)))
                  (num_of (if truthy (field (field bare_status ''data'') ''run'')
                           then field (field bare_status ''data'') ''run'' else JNum 0)))]"
    by blast+
  then have "\<not> isOn b' \<and> oilLevel b' = JNum 0
      \<and> updates v' = [UpdOn False, UpdFilterLifeLevel (JNum 0), UpdLockPhysicalControls 0,
                        UpdRotationSpeed (Some 0)]"
    unfolding k3 k4 e2 by (simp add: Math_round_def)
  with k2 k3 have second: "case pollStatus bare_world sample_accessory of
      (r, a', w') \<Rightarrow>
        fst (callApi bare_world sample_accessory ''/amosFragrance.do'' ?ps 0) = Resolved bare_status
      \<and> truthy (field bare_status ''data'')
      \<and> field (field bare_status ''data'') ''liquidLevel'' = JUndefined
      \<and> \<not> isOn a' \<and> oilLevel a' = JNum 0
      \<and> updates w' = [UpdOn False, UpdFilterLifeLevel (JNum 0), UpdLockPhysicalControls 0,
                        UpdRotationSpeed (Some 0)]"
    unfolding run2 call2 by simp
  from first third second show ?thesis by blast
qed

section \<open>Login\<close>

text \<open>
  Claim C7. A login answered with a status from 200 to 399 and no \<^verbatim>\<open>Set-Cookie\<close> header
  is rejected with the invalid-credentials error when the body contains
  \<^verbatim>\<open>AuthenticationException\<close>, and resolves with \<^verbatim>\<open>null\<close> otherwise. A login answered with
  any other status is rejected with the HTTP error that carries the status, whatever the
  header and the body.
\<close>

theorem login_without_cookies:
  "(200 \<le> statusCode \<and> statusCode < 400 \<and> str_includes body ''AuthenticationException''
      \<longrightarrow> login (LoginResponse statusCode None body) = Rejected InvalidCredentials)
 \<and> (200 \<le> statusCode \<and> statusCode < 400 \<and> \<not> str_includes body ''AuthenticationException''
      \<longrightarrow> login (LoginResponse statusCode None body) = Resolved None)
 \<and> (\<not> (200 \<le> statusCode \<and> statusCode < 400)
      \<longrightarrow> login (LoginResponse statusCode cookies body) = Rejected (LoginHttpError statusCode))"
  by (simp add: login_def)

text \<open>Status 200 with the marker, status 302 without it, status 500.\<close>

theorem login_without_cookies_witness:
  \<open>200 \<le> (200::int) \<and> (200::int) < 400
   \<and> str_includes ''{"status":"AuthenticationException"}'' ''AuthenticationException''
   \<and> login (LoginResponse 200 None ''{"status":"AuthenticationException"}'') = Rejected InvalidCredentials
   \<and> 200 \<le> (302::int) \<and> (302::int) < 400 \<and> \<not> str_includes ''moved'' ''AuthenticationException''
   \<and> login (LoginResponse 302 None ''moved'') = Resolved None
   \<and> \<not> (200 \<le> (500::int) \<and> (500::int) < 400)
   \<and> login (LoginResponse 500 (Some [''uid=17; Path=/'']) []) = Rejected (LoginHttpError 500)\<close>
  using login_without_cookies [of 200 \<open>''{"status":"AuthenticationException"}''\<close> None]
    login_without_cookies [of 302 "''moved''" None]
    login_without_cookies [of 500 "[]" "Some [''uid=17; Path=/'']"]
  by simp

section \<open>Intensity\<close>






text \<open>
  Claim C9. The intensity-get operation is a function of the accessory alone: it sends
  nothing. With no timer cached (the state after construction) it returns 50. With a timer
  object cached it returns the minimum of 100 and a third of the timer's \<^verbatim>\<open>run\<close>, rounded,
  taking 0 for an absent \<^verbatim>\<open>run\<close>. After an intensity-set that resolved, the cache holds
  the first entry of the list that this operation fetched, and the value returned is the one
  computed from that entry.
\<close>

theorem getRotationSpeed_cached:
  "(timerCache a = JNull \<longrightarrow> getRotationSpeed a = Some 50)
 \<and> getRotationSpeed (new_accessory c) = Some 50
 \<and> (timerCache a = JObj t \<and> field (JObj t) ''run'' = JNum x
      \<longrightarrow> getRotationSpeed a = Some (min 100 (Math_round (x / 3))))
 \<and> (timerCache a = JObj t \<and> field (JObj t) ''run'' = JUndefined
      \<longrightarrow> getRotationSpeed a = Some (min 100 (Math_round (0 / 3))))
 \<and> (v \<noteq> 0 \<and> setRotationSpeed w a v = (Resolved (), a', w')
      \<longrightarrow> (\<exists>listJson a1 w1 timer.
             callApi w a ''/timerList.do'' [''isBluetooth'' \<mapsto> JNum 0] 0 = (Resolved listJson, a1, w1)
           \<and> elem0 (field listJson ''data'') = Some timer
           \<and> timerCache a' = timer
           \<and> getRotationSpeed a' =
               (if truthy timer then run_to_percent (js_or (field timer ''run'') (JNum 0))
                else Some 50)))"
proof -
  have 1: "getRotationSpeed a = Some 50" if "timerCache a = JNull"
    using that by (simp add: getRotationSpeed_def)
  have 2: "getRotationSpeed (new_accessory c) = Some 50"
    by (simp add: getRotationSpeed_def new_accessory_def)
  have 3: "getRotationSpeed a = Some (min 100 (Math_round (x / 3)))"
    if "timerCache a = JObj t" "field (JObj t) ''run'' = JNum x"
    using that by (simp add: getRotationSpeed_def run_to_percent_def js_or_def)
  have 4: "getRotationSpeed a = Some (min 100 (Math_round (0 / 3)))"
    if "timerCache a = JObj t" "field (JObj t) ''run'' = JUndefined"
    using that by (simp add: getRotationSpeed_def run_to_percent_def js_or_def)
  have 5: "\<exists>listJson a1 w1 timer.
             callApi w a ''/timerList.do'' [''isBluetooth'' \<mapsto> JNum 0] 0 = (Resolved listJson, a1, w1)
           \<and> elem0 (field listJson ''data'') = Some timer
           \<and> timerCache a' = timer
           \<and> getRotationSpeed a' =
               (if truthy timer then run_to_percent (js_or (field timer ''run'') (JNum 0))
                else Some 50)"
    if v: "v \<noteq> 0" and run: "setRotationSpeed w a v = (Resolved (), a', w')"
  proof -
    obtain r1 b1 v1 where u: "updateTimerIntensity w a (max 5 (Math_round (product w v 3))) = (r1, b1, v1)"
      by (cases "updateTimerIntensity w a (max 5 (Math_round (product w v 3)))")
    from setRotationSpeed_eq [OF v u] run have "r1 = Resolved ()" "b1 = a'" "v1 = w'"
      by (cases r1; simp)+
    with u have "updateTimerIntensity w a (max 5 (Math_round (product w v 3))) = (Resolved (), a', w')"
      by simp
    from updateTimerIntensity_resolved [OF this] obtain listJson a1 w1 timer where
      "callApi w a ''/timerList.do'' [''isBluetooth'' \<mapsto> JNum 0] 0 = (Resolved listJson, a1, w1)"
      "elem0 (field listJson ''data'') = Some timer" "timerCache a' = timer"
      by blast
    then show ?thesis
      by (intro exI [of _ listJson] exI [of _ a1] exI [of _ w1] exI [of _ timer])
         (simp add: getRotationSpeed_def Let_def)
  qed
  from 1 2 3 4 5 show ?thesis by blast
qed


text \<open>A fresh accessory reads 50; after setting 50 against a list whose timer has run 10,
  the cache holds that timer and the intensity reads 3.\<close>

theorem getRotationSpeed_cached_witness:
  "timerCache sample_accessory = JNull
 \<and> getRotationSpeed sample_accessory = Some 50
 \<and> (case setRotationSpeed timer_world sample_accessory 50 of
      (r, a', w') \<Rightarrow>
        (50::real) \<noteq> 0 \<and> r = Resolved ()
      \<and> timerCache a' = sample_timer
      \<and> field sample_timer ''run'' = JNum 10
      \<and> getRotationSpeed a' = Some 3)"
proof -
  let ?ps = "[''isBluetooth'' \<mapsto> JNum 0]"
  let ?J = "JObj [(''status'', JStr ''200''), (''data'', JArr [sample_timer])]"
  let ?T = "[(''timerId'', JNum 1), (''uid'', JNum 17), (''name'', JStr ''Day''),
       (''start'', JStr ''08:00''), (''stop'', JStr ''22:00''), (''mode'', JNum 1),
       (''run'', JNum 10), (''suspend'', JNum 120)]"
  have c0: "timerCache sample_accessory = JNull"
    by (simp add: sample_accessory_def new_accessory_def)
  from getRotationSpeed_cached [where a = sample_accessory] c0
  have g0: "getRotationSpeed sample_accessory = Some 50" by blast
  obtain r a' w' where run: "setRotationSpeed timer_world sample_accessory 50 = (r, a', w')"
    by (cases "setRotationSpeed timer_world sample_accessory 50")
  have "fst (setRotationSpeed timer_world sample_accessory 50) = Resolved ()"
    by (simp add: setRotationSpeed_def updateTimerIntensity_def await_def no_timers_def
          field_def update_params_def Let_def callApi.simps sample_defs auth_failure_def)
  with run have r: "r = Resolved ()" by simp
  have v: "(50::real) \<noteq> 0" by simp
  from getRotationSpeed_cached [where a = sample_accessory and v = 50 and w = timer_world
      and a' = a' and w' = w'] v run r
  obtain listJson a1 w1 timer where
    l: "callApi timer_world sample_accessory ''/timerList.do'' ?ps 0 = (Resolved listJson, a1, w1)"
    and t: "elem0 (field listJson ''data'') = Some timer" "timerCache a' = timer"
    by blast
  from l sample_list_call have "listJson = ?J" by simp
  with t have c: "timerCache a' = JObj ?T"
    by (simp add: field_def sample_timer_def)
  have f: "field (JObj ?T) ''run'' = JNum 10" by (simp add: field_def)
  from getRotationSpeed_cached [where a = a' and t = ?T and x = 10] c f
  have "getRotationSpeed a' = Some (min 100 (Math_round (10 / 3)))" by blast
  then have "getRotationSpeed a' = Some 3" by (simp add: Math_round_def)
  with c0 g0 v r c f show ?thesis
    unfolding run by (simp add: sample_timer_def)
qed

section \<open>Session refresh\<close>

text \<open>
  Claim C3, as amended. Two calls of \<^verbatim>\<open>refreshSession\<close> while a refresh is in flight
  start nothing: both return the stored promise in flight, and no login is added. Two calls
  from the idle state start one refresh between them: both return the same newly stored
  promise, and one login is performed when e-mail and password are configured, none when
  one of them is missing. The two callers hold two different promises, which follow that one
  stored promise: when the refresh completes, with success or failure, the marker is
  cleared and both callers receive the same value, the credentials or the error (the
  missing-credentials error when e-mail or password is missing); a later call starts a new
  refresh.
\<close>

theorem refreshSession_deduplicates:
  "(refreshPromise p = Some q \<longrightarrow>
      (let i = length (returned p);
           p2 = refreshSession b (refreshSession a p);
           p3 = settle q r p2
       in refreshPromise p2 = Some q
        \<and> returned p2 = returned p @ [(a, q), (b, q)]
        \<and> logins p2 = logins p
        \<and> promises p2 = promises p
        \<and> (q < length (promises p) \<and> \<not> settled (promises p ! q) \<longrightarrow>
             refreshPromise p3 = None
           \<and> settled (promises p3 ! q)
           \<and> logins p3 = logins p
           \<and> (\<exists>v. received p3 i = Some v \<and> received p3 (i + 1) = Some v))))
 \<and> (refreshPromise p = None \<longrightarrow>
      (let i = length (returned p);
           q = length (promises p);
           n = (if missing (email p) \<or> missing (password p) then 0 else 1);
           v = (if missing (email p) \<or> missing (password p) then Inl MissingCredentials
                else executeRefresh_finish r);
           p2 = refreshSession b (refreshSession a p);
           p3 = settle q r p2;
           p4 = refreshSession c p3
       in refreshPromise p2 = Some q
        \<and> returned p2 = returned p @ [(a, q), (b, q)]
        \<and> logins p2 = logins p + n
        \<and> received p2 i = None \<and> received p2 (i + 1) = None
        \<and> refreshPromise p3 = None
        \<and> received p3 i = Some v \<and> received p3 (i + 1) = Some v
        \<and> logins p3 = logins p + n
        \<and> refreshPromise p4 = Some (q + 1)
        \<and> returned p4 = returned p @ [(a, q), (b, q), (c, q + 1)]
        \<and> received p4 (i + 2) = None
        \<and> logins p4 = logins p + 2 * n))"
proof -
  have flight:
    "(let i = length (returned p);
           p2 = refreshSession b (refreshSession a p);
           p3 = settle q r p2
       in refreshPromise p2 = Some q
        \<and> returned p2 = returned p @ [(a, q), (b, q)]
        \<and> logins p2 = logins p
        \<and> promises p2 = promises p
        \<and> (q < length (promises p) \<and> \<not> settled (promises p ! q) \<longrightarrow>
             refreshPromise p3 = None
           \<and> settled (promises p3 ! q)
           \<and> logins p3 = logins p
           \<and> (\<exists>v. received p3 i = Some v \<and> received p3 (i + 1) = Some v)))"
    if m: "refreshPromise p = Some q"
  proof -
    let ?p2 = "p\<lparr>returned := returned p @ [(a, q), (b, q)]\<rparr>"
    have p1: "refreshSession a p = p\<lparr>returned := returned p @ [(a, q)]\<rparr>"
      by (rule refreshSession_in_flight [OF m])
    have p2: "refreshSession b (refreshSession a p) = ?p2"
      unfolding p1 using m by (simp add: refreshSession_in_flight)
    have fin: "refreshPromise (settle q r ?p2) = None
           \<and> settled (promises (settle q r ?p2) ! q)
           \<and> logins (settle q r ?p2) = logins p
           \<and> (\<exists>v. received (settle q r ?p2) (length (returned p)) = Some v
                \<and> received (settle q r ?p2) (length (returned p) + 1) = Some v)"
      if q: "q < length (promises p)" "\<not> settled (promises p ! q)"
    proof -
      have q': "q < length (promises ?p2)" "\<not> settled (promises ?p2 ! q)"
        using q by simp_all
      note u = settle_unsettled [OF q', of r]
      from u(2) obtain v where v: "promises (settle q r ?p2) ! q = Done v"
        by (cases "promises (settle q r ?p2) ! q") simp_all
      have "received (settle q r ?p2) (length (returned p)) = Some v"
        "received (settle q r ?p2) (length (returned p) + 1) = Some v"
        using u(4,5) v q by (simp_all add: received_def nth_append)
      with u(1,2,3) show ?thesis by simp
    qed
    show ?thesis
      unfolding Let_def p2 using m fin by simp
  qed
  have idle:
    "(let i = length (returned p);
           q = length (promises p);
           n = (if missing (email p) \<or> missing (password p) then 0 else 1);
           v = (if missing (email p) \<or> missing (password p) then Inl MissingCredentials
                else executeRefresh_finish r);
           p2 = refreshSession b (refreshSession a p);
           p3 = settle q r p2;
           p4 = refreshSession c p3
       in refreshPromise p2 = Some q
        \<and> returned p2 = returned p @ [(a, q), (b, q)]
        \<and> logins p2 = logins p + n
        \<and> received p2 i = None \<and> received p2 (i + 1) = None
        \<and> refreshPromise p3 = None
        \<and> received p3 i = Some v \<and> received p3 (i + 1) = Some v
        \<and> logins p3 = logins p + n
        \<and> refreshPromise p4 = Some (q + 1)
        \<and> returned p4 = returned p @ [(a, q), (b, q), (c, q + 1)]
        \<and> received p4 (i + 2) = None
        \<and> logins p4 = logins p + 2 * n)"
    if m: "refreshPromise p = None"
  proof -
    let ?q = "length (promises p)"
    let ?n = "if missing (email p) \<or> missing (password p) then 0 else 1 :: nat"
    let ?st = "if missing (email p) \<or> missing (password p) then Throwing MissingCredentials
            else AwaitLogin"
    let ?p1 = "p\<lparr>logins := logins p + ?n, promises := promises p @ [?st],
         refreshPromise := Some ?q, returned := returned p @ [(a, ?q)]\<rparr>"
    let ?p2 = "?p1\<lparr>returned := returned p @ [(a, ?q), (b, ?q)]\<rparr>"
    let ?v = "if missing (email p) \<or> missing (password p) then Inl MissingCredentials
                  else executeRefresh_finish r"
    let ?p3 = "?p2\<lparr>promises := promises p @ [Done ?v], refreshPromise := None\<rparr>"
    have p1: "refreshSession a p = ?p1"
      using refreshSession_idle [OF m, of a] by simp
    have p2: "refreshSession b (refreshSession a p) = ?p2"
      unfolding p1 by (simp add: refreshSession_in_flight)
    have p3: "settle ?q r ?p2 = ?p3"
      by (simp add: settle_def)
    have p4: "refreshSession c ?p3 =
       ?p3\<lparr>logins := logins p + ?n + ?n, promises := promises p @ [Done ?v, ?st],
           refreshPromise := Some (?q + 1),
           returned := returned p @ [(a, ?q), (b, ?q), (c, ?q + 1)]\<rparr>"
      by (subst refreshSession_idle) simp_all
    show ?thesis
      unfolding Let_def p2 p3 p4 by (simp add: received_def nth_append)
  qed
  from flight idle show ?thesis by blast
qed

text \<open>A configured platform: callers 1 and 2 from the idle state, then caller 3 after
  completion; and callers 2 and 3 while the refresh of caller 1 is in flight.\<close>

theorem refreshSession_deduplicates_witness:
  "refreshPromise (idle_platform (Some ''user@example.org'') (Some ''secret'')) = None
 \<and> (let p2 = refreshSession 2 (refreshSession 1
                 (idle_platform (Some ''user@example.org'') (Some ''secret'')));
        p3 = settle 0 (Inr (Some new_creds)) p2;
        p4 = refreshSession 3 p3
    in returned p2 = [(1, 0), (2, 0)] \<and> refreshPromise p2 = Some 0 \<and> logins p2 = 1
     \<and> refreshPromise p3 = None \<and> logins p3 = 1
     \<and> received p3 0 = Some (Inr new_creds) \<and> received p3 1 = Some (Inr new_creds)
     \<and> refreshPromise p4 = Some 1 \<and> returned p4 = [(1, 0), (2, 0), (3, 1)] \<and> logins p4 = 2)
 \<and> (let p1 = refreshSession 1 (idle_platform (Some ''user@example.org'') (Some ''secret''));
        p3 = refreshSession 3 (refreshSession 2 p1);
        p4 = settle 0 (Inl (AuthError ''Auth Down'')) p3
    in refreshPromise p1 = Some 0 \<and> 0 < length (promises p1) \<and> \<not> settled (promises p1 ! 0)
     \<and> returned p3 = [(1, 0), (2, 0), (3, 0)] \<and> logins p3 = 1
     \<and> refreshPromise p4 = None \<and> logins p4 = 1
     \<and> (\<exists>v. received p4 1 = Some v \<and> received p4 2 = Some v))"
proof -
  let ?p = "idle_platform (Some ''user@example.org'') (Some ''secret'')"
  let ?p1 = "refreshSession 1 ?p"
  have i: "refreshPromise ?p = None" "promises ?p = []" "returned ?p = []" "logins ?p = 0"
    "\<not> (missing (email ?p) \<or> missing (password ?p))"
    by (simp_all add: idle_platform_def missing_def)
  have f: "refreshPromise ?p1 = Some 0" "0 < length (promises ?p1)" "\<not> settled (promises ?p1 ! 0)"
    "returned ?p1 = [(1, 0)]" "logins ?p1 = 1"
    by (simp_all add: refreshSession_idle i)
  have e: "executeRefresh_finish (Inr (Some new_creds)) = Inr new_creds"
    by (simp add: executeRefresh_finish_def new_creds_def)
  from refreshSession_deduplicates [where p = ?p and a = 1 and b = 2 and c = 3
      and r = "Inr (Some new_creds)"] i e
  have first: "let p2 = refreshSession 2 (refreshSession 1 ?p);
        p3 = settle 0 (Inr (Some new_creds)) p2;
        p4 = refreshSession 3 p3
    in returned p2 = [(1, 0), (2, 0)] \<and> refreshPromise p2 = Some 0 \<and> logins p2 = 1
     \<and> refreshPromise p3 = None \<and> logins p3 = 1
     \<and> received p3 0 = Some (Inr new_creds) \<and> received p3 1 = Some (Inr new_creds)
     \<and> refreshPromise p4 = Some 1 \<and> returned p4 = [(1, 0), (2, 0), (3, 1)] \<and> logins p4 = 2"
    by (simp add: Let_def)
  from refreshSession_deduplicates [where p = ?p1 and q = 0 and a = 2 and b = 3
      and r = "Inl (AuthError ''Auth Down'')"] f
  have second: "let p1 = refreshSession 1 ?p;
        p3 = refreshSession 3 (refreshSession 2 p1);
        p4 = settle 0 (Inl (AuthError ''Auth Down'')) p3
    in refreshPromise p1 = Some 0 \<and> 0 < length (promises p1) \<and> \<not> settled (promises p1 ! 0)
     \<and> returned p3 = [(1, 0), (2, 0), (3, 0)] \<and> logins p3 = 1
     \<and> refreshPromise p4 = None \<and> logins p4 = 1
     \<and> (\<exists>v. received p4 1 = Some v \<and> received p4 2 = Some v)"
    by (auto simp: Let_def eval_nat_numeral)
  from i(1) first second show ?thesis by blast
qed

text \<open>
  Claim C3 as stated fails: on a platform without e-mail, two calls from the idle state
  are served by one refresh, which is rejected before any login: both callers receive
  the missing-credentials error, and no login is performed at all.
\<close>

theorem refreshSession_login_counterexample:
  "refreshPromise (idle_platform None (Some ''secret'')) = None
 \<and> logins (idle_platform None (Some ''secret'')) = 0
 \<and> returned (refreshSession 2 (refreshSession 1 (idle_platform None (Some ''secret''))))
     = [(1, 0), (2, 0)]
 \<and> logins (settle 0 (Inr (Some new_creds))
       (refreshSession 2 (refreshSession 1 (idle_platform None (Some ''secret''))))) = 0
 \<and> received (settle 0 (Inr (Some new_creds))
       (refreshSession 2 (refreshSession 1 (idle_platform None (Some ''secret''))))) 0
     = Some (Inl MissingCredentials)
 \<and> received (settle 0 (Inr (Some new_creds))
       (refreshSession 2 (refreshSession 1 (idle_platform None (Some ''secret''))))) 1
     = Some (Inl MissingCredentials)"
  by (simp add: idle_platform_def refreshSession_def executeRefresh_start_def settle_def
        missing_def received_def Let_def)

end
